theory Spec2Isabelle
  imports Complex_Main "HOL-Library.AList" "HOL-Library.Sublist"
begin

chapter \<open>The transaction importer of portfolio_performance\<close>

text \<open>
  A shallow embedding of \<^verbatim>\<open>src/portfolio/transaction_importer\<close>: the value parsers
  (\<^verbatim>\<open>parsers.py\<close>), the broker mapping store (\<^verbatim>\<open>utils.py\<close>), the row parser
  (\<^verbatim>\<open>csv_import.py\<close>), the staging grid (\<^verbatim>\<open>table_model.py\<close>), the commit
  (\<^verbatim>\<open>db.py\<close>) and the column-mapping heuristics (\<^verbatim>\<open>column_mapper.py\<close>).

  Conventions. A Python \<^verbatim>\<open>str\<close> is a \<^typ>\<open>string\<close>; the model covers the ASCII
  fragment of Python's strings (code points below 128), on which case mapping, whitespace
  and digit classes are the ones written out below. The number parsers are the exception:
  \<^verbatim>\<open>parse_decimal\<close> removes the euro sign, and \<^verbatim>\<open>str.strip\<close> and the
  \<^verbatim>\<open>Decimal\<close> constructor accept the whitespace and the decimal digits of all of
  Unicode, so their argument is a \<open>ustring\<close>, the list of the code points of the
  \<^verbatim>\<open>str\<close>, and \<open>ustr\<close> embeds a \<^typ>\<open>string\<close> into it.
  An exception is a value of type \<open>error\<close>, and a function that can raise returns
  \<open>error + 'a\<close>. A \<^verbatim>\<open>Dict[str, Any]\<close> is a map from \<^typ>\<open>string\<close> to \<open>pyval\<close>.
\<close>

section \<open>Python strings\<close>

definition is_space :: "char \<Rightarrow> bool" where
  \<comment> \<open>\<^verbatim>\<open>str.isspace\<close> on ASCII: tab, LF, VT, FF, CR, FS, GS, RS, US and the space\<close>
  "is_space c = (let n = (of_char c :: int) in (9 \<le> n \<and> n \<le> 13) \<or> (28 \<le> n \<and> n \<le> 32))"

definition is_digit :: "char \<Rightarrow> bool" where
  "is_digit c = (let n = (of_char c :: int) in 48 \<le> n \<and> n \<le> 57)"

definition is_upper :: "char \<Rightarrow> bool" where
  "is_upper c = (let n = (of_char c :: int) in 65 \<le> n \<and> n \<le> 90)"

definition is_lower :: "char \<Rightarrow> bool" where
  "is_lower c = (let n = (of_char c :: int) in 97 \<le> n \<and> n \<le> 122)"

definition is_alpha :: "char \<Rightarrow> bool" where
  "is_alpha c = (is_upper c \<or> is_lower c)"

definition lower_chr :: "char \<Rightarrow> char" where
  "lower_chr c = (if is_upper c then char_of ((of_char c :: int) + 32) else c)"

definition upper_chr :: "char \<Rightarrow> char" where
  "upper_chr c = (if is_lower c then char_of ((of_char c :: int) - 32) else c)"

definition lower :: "string \<Rightarrow> string" where
  "lower s = map lower_chr s"

definition upper :: "string \<Rightarrow> string" where
  "upper s = map upper_chr s"

definition strip :: "string \<Rightarrow> string" where
  \<comment> \<open>\<^verbatim>\<open>s.strip()\<close>\<close>
  "strip s = rev (dropWhile is_space (rev (dropWhile is_space s)))"

definition remove_chr :: "'a \<Rightarrow> 'a list \<Rightarrow> 'a list" where
  \<comment> \<open>\<^verbatim>\<open>s.replace(c, '')\<close> for a one-character \<^verbatim>\<open>c\<close>\<close>
  "remove_chr c s = filter (\<lambda>x. x \<noteq> c) s"

fun contains :: "string \<Rightarrow> string \<Rightarrow> bool" where
  \<comment> \<open>\<^verbatim>\<open>key in s\<close>: \<open>key\<close> is a substring of \<open>s\<close>\<close>
  "contains key [] = (key = [])"
| "contains key (c # cs) = (prefix key (c # cs) \<or> contains key cs)"

definition isalpha :: "string \<Rightarrow> bool" where
  \<comment> \<open>\<^verbatim>\<open>s.isalpha()\<close>: non-empty and letters only\<close>
  "isalpha s = (s \<noteq> [] \<and> list_all is_alpha s)"

fun split_ws_aux :: "string \<Rightarrow> string \<Rightarrow> string list" where
  "split_ws_aux cur [] = (if cur = [] then [] else [rev cur])"
| "split_ws_aux cur (c # cs) =
     (if is_space c then (if cur = [] then split_ws_aux [] cs else rev cur # split_ws_aux [] cs)
      else split_ws_aux (c # cur) cs)"

definition split_ws :: "string \<Rightarrow> string list" where
  \<comment> \<open>\<^verbatim>\<open>s.split()\<close>: the maximal runs of non-whitespace\<close>
  "split_ws s = split_ws_aux [] s"

subsection \<open>Strings outside ASCII\<close>

type_synonym ustring = "int list"

definition ustr :: "string \<Rightarrow> ustring" where
  \<comment> \<open>the code points of a \<^typ>\<open>string\<close>\<close>
  "ustr s = map of_char s"

definition Py_UNICODE_ISSPACE :: "int \<Rightarrow> bool" where
  \<comment> \<open>the whitespace of \<^verbatim>\<open>str.strip\<close>, \<^verbatim>\<open>str.isspace\<close> and of the Decimal
      constructor: the ASCII ones, NEL, the no-break space, the Ogham space mark, the spaces
      U+2000 to U+200A, the line and paragraph separators, the narrow no-break space, the
      medium mathematical space and the ideographic space\<close>
  "Py_UNICODE_ISSPACE ch =
     ((9 \<le> ch \<and> ch \<le> 13) \<or> (28 \<le> ch \<and> ch \<le> 32) \<or> ch = 0x85 \<or> ch = 0xA0
      \<or> ch = 0x1680 \<or> (0x2000 \<le> ch \<and> ch \<le> 0x200A) \<or> ch = 0x2028 \<or> ch = 0x2029
      \<or> ch = 0x202F \<or> ch = 0x205F \<or> ch = 0x3000)"

definition ustrip :: "ustring \<Rightarrow> ustring" where
  \<comment> \<open>\<^verbatim>\<open>s.strip()\<close>\<close>
  "ustrip s = rev (dropWhile Py_UNICODE_ISSPACE (rev (dropWhile Py_UNICODE_ISSPACE s)))"

definition decimal_zeros :: "int list" where
  \<comment> \<open>the digits zero of the Unicode character database (category Nd, version 14.0, the
      one of CPython 3.11); the digits one to nine of each script follow its zero\<close>
  "decimal_zeros =
     [0x30, 0x660, 0x6F0, 0x7C0, 0x966, 0x9E6, 0xA66, 0xAE6, 0xB66, 0xBE6, 0xC66, 0xCE6,
      0xD66, 0xDE6, 0xE50, 0xED0, 0xF20, 0x1040, 0x1090, 0x17E0, 0x1810, 0x1946, 0x19D0,
      0x1A80, 0x1A90, 0x1B50, 0x1BB0, 0x1C40, 0x1C50, 0xA620, 0xA8D0, 0xA900, 0xA9D0,
      0xA9F0, 0xAA50, 0xABF0, 0xFF10, 0x104A0, 0x10D30, 0x11066, 0x110F0, 0x11136,
      0x111D0, 0x112F0, 0x11450, 0x114D0, 0x11650, 0x116C0, 0x11730, 0x118E0, 0x11950,
      0x11C50, 0x11D50, 0x11DA0, 0x16A60, 0x16AC0, 0x16B50, 0x1D7CE, 0x1D7D8, 0x1D7E2,
      0x1D7EC, 0x1D7F6, 0x1E140, 0x1E2F0, 0x1E950, 0x1FBF0]"

definition Py_UNICODE_TODECIMAL :: "int \<Rightarrow> int" where
  \<comment> \<open>the value of a decimal digit, \<open>-1\<close> for any other character\<close>
  "Py_UNICODE_TODECIMAL ch =
     (case find (\<lambda>z. z \<le> ch \<and> ch \<le> z + 9) decimal_zeros of
        Some z \<Rightarrow> ch - z
      | None \<Rightarrow> - 1)"


section \<open>Exceptions\<close>

datatype error =
    ValueError string
  | KeyError string
  | InvalidOperation
  | TypeError
  | AttributeError
  | IntegrityError

section \<open>Decimal\<close>

text \<open>
  A \<^verbatim>\<open>decimal.Decimal\<close> is modelled by its numeric value: a finite decimal is the
  rational it denotes (so equality is Python's numeric \<^verbatim>\<open>==\<close>), next to the infinities
  and the two NaNs. The sums and products below are exact: the rounding of results to the
  28 significant digits of Python's default context is not modelled.
\<close>

datatype decimal = Finite rat | Infinity bool | NaN | sNaN

text \<open>
  The constructor on a \<^verbatim>\<open>str\<close> is the one of CPython's \<^verbatim>\<open>_decimal\<close> module on
  a 64-bit platform, under the default context (which traps \<^verbatim>\<open>InvalidOperation\<close>):
  \<^verbatim>\<open>numeric_as_ascii\<close> turns the text into ASCII, and \<^verbatim>\<open>mpd_qset_string\<close> reads
  the ASCII text exactly, within the largest context of the library: at most
  \<open>MPD_MAX_PREC\<close> digits, an adjusted exponent of at most \<open>MPD_MAX_EMAX\<close>, an exponent of
  at least \<open>MPD_MIN_ETINY\<close>; a numeral outside these bounds is refused like a malformed
  one.
\<close>

fun ascii_chars :: "ustring \<Rightarrow> string option" where
  \<comment> \<open>the loop of \<^verbatim>\<open>numeric_as_ascii\<close>: underscores are skipped, ASCII is copied,
      any other whitespace becomes a space and any other decimal digit its ASCII digit;
      \<open>None\<close> at a character that is none of these\<close>
  "ascii_chars [] = Some []"
| "ascii_chars (ch # r) =
     (if ch = 0x5F then ascii_chars r
      else if 0 < ch \<and> ch \<le> 127 then map_option ((#) (char_of ch)) (ascii_chars r)
      else if Py_UNICODE_ISSPACE ch then map_option ((#) CHR '' '') (ascii_chars r)
      else if Py_UNICODE_TODECIMAL ch < 0 then None
      else map_option ((#) (char_of (48 + Py_UNICODE_TODECIMAL ch))) (ascii_chars r))"

definition numeric_as_ascii :: "ustring \<Rightarrow> string" where
  \<comment> \<open>surrounding whitespace is stripped first; the result for a text that cannot be
      converted is the empty string, which the parser refuses\<close>
  "numeric_as_ascii u = (case ascii_chars (ustrip u) of None \<Rightarrow> [] | Some s \<Rightarrow> s)"

definition MPD_MAX_PREC :: int where
  "MPD_MAX_PREC = 999999999999999999"

definition MPD_MAX_EMAX :: int where
  "MPD_MAX_EMAX = 999999999999999999"

definition MPD_MIN_ETINY :: int where
  "MPD_MIN_ETINY = - 1999999999999999997"

definition digits_val :: "string \<Rightarrow> int" where
  "digits_val s = foldl (\<lambda>a c. 10 * a + ((of_char c :: int) - 48)) 0 s"

definition pow10 :: "int \<Rightarrow> int \<Rightarrow> rat" where
  \<comment> \<open>\<open>c * 10 ^ e\<close> for an integer exponent \<open>e\<close>\<close>
  "pow10 c e = (if 0 \<le> e then Fract (c * 10 ^ nat e) 1 else Fract c (10 ^ nat (- e)))"

definition all_digits :: "string \<Rightarrow> bool" where
  "all_digits s = list_all is_digit s"

definition count_digits :: "string \<Rightarrow> int" where
  \<comment> \<open>the number of digits of a coefficient: leading zeros do not count, a zero has one\<close>
  "count_digits ds = max 1 (int (length (dropWhile (\<lambda>c. c = CHR ''0'') ds)))"

definition parse_exponent :: "string \<Rightarrow> int option" where
  \<comment> \<open>the text after \<^verbatim>\<open>e\<close>/\<^verbatim>\<open>E\<close>: an optional sign and at least one digit\<close>
  "parse_exponent s =
     (case s of
        [] \<Rightarrow> None
      | c # r \<Rightarrow>
          if c = CHR ''+'' then (if r \<noteq> [] \<and> all_digits r then Some (digits_val r) else None)
          else if c = CHR ''-'' then (if r \<noteq> [] \<and> all_digits r then Some (- digits_val r) else None)
          else if all_digits s then Some (digits_val s) else None)"

definition parse_mantissa :: "string \<Rightarrow> (string \<times> string) option" where
  \<comment> \<open>digits with at most one point and at least one digit: the digits before and the
      digits after the point\<close>
  "parse_mantissa s =
     (let ip = takeWhile (\<lambda>c. c \<noteq> CHR ''.'') s;
          r = dropWhile (\<lambda>c. c \<noteq> CHR ''.'') s;
          fp = (case r of [] \<Rightarrow> [] | _ # t \<Rightarrow> t)
      in if all_digits ip \<and> all_digits fp \<and> ip @ fp \<noteq> [] then Some (ip, fp) else None)"

definition parse_finite :: "bool \<Rightarrow> string \<Rightarrow> decimal option" where
  \<comment> \<open>a numeral \<^verbatim>\<open>digits [. digits] [e [sign] digits]\<close>, refused outside the bounds\<close>
  "parse_finite neg s =
     (let is_e = (\<lambda>c. c = CHR ''e'' \<or> c = CHR ''E'');
          m = takeWhile (\<lambda>c. \<not> is_e c) s;
          r = dropWhile (\<lambda>c. \<not> is_e c) s
      in case parse_mantissa m of
           None \<Rightarrow> None
         | Some (ip, fp) \<Rightarrow>
             (case (case r of [] \<Rightarrow> Some 0 | _ # t \<Rightarrow> parse_exponent t) of
                None \<Rightarrow> None
              | Some e \<Rightarrow>
                  let n = digits_val (ip @ fp);
                      digits = count_digits (ip @ fp);
                      fracdigits = int (length fp);
                      exp = e - fracdigits
                  in if digits \<le> MPD_MAX_PREC \<and> fracdigits \<le> MPD_MAX_PREC
                        \<and> exp + digits - 1 \<le> MPD_MAX_EMAX \<and> MPD_MIN_ETINY \<le> exp
                     then Some (Finite (pow10 (if neg then - n else n) exp))
                     else None))"

definition parse_payload :: "string \<Rightarrow> bool" where
  \<comment> \<open>the diagnostic digits after \<^verbatim>\<open>NaN\<close>: digits only, within the precision\<close>
  "parse_payload p = (all_digits p \<and> int (length (dropWhile (\<lambda>c. c = CHR ''0'') p)) \<le> MPD_MAX_PREC)"

definition parse_unsigned :: "bool \<Rightarrow> string \<Rightarrow> decimal option" where
  "parse_unsigned neg s =
     (let l = lower s in
      if take 3 l = ''nan'' then (if parse_payload (drop 3 s) then Some NaN else None)
      else if take 4 l = ''snan'' then (if parse_payload (drop 4 s) then Some sNaN else None)
      else if take 3 l = ''inf'' then
        (if drop 3 l = [] \<or> drop 3 l = ''inity'' then Some (Infinity neg) else None)
      else parse_finite neg s)"

definition mpd_qset_string :: "string \<Rightarrow> decimal option" where
  \<comment> \<open>\<^verbatim>\<open>[sign] (NaN [digits] | sNaN [digits] | Inf | Infinity | numeral)\<close>, letters in
      either case\<close>
  "mpd_qset_string s =
     (case s of
        [] \<Rightarrow> None
      | c # cs \<Rightarrow>
          if c = CHR ''-'' then parse_unsigned True cs
          else if c = CHR ''+'' then parse_unsigned False cs
          else parse_unsigned False s)"

definition Decimal :: "ustring \<Rightarrow> error + decimal" where
  \<comment> \<open>the constructor \<^verbatim>\<open>Decimal(s)\<close> on a \<^verbatim>\<open>str\<close>: anything that is not read
      raises \<^verbatim>\<open>InvalidOperation\<close>\<close>
  "Decimal s =
     (case mpd_qset_string (numeric_as_ascii s) of
        None \<Rightarrow> Inl InvalidOperation
      | Some d \<Rightarrow> Inr d)"

definition dec_lt0 :: "decimal \<Rightarrow> error + bool" where
  \<comment> \<open>\<^verbatim>\<open>d < 0\<close>: an ordering comparison with a NaN raises \<^verbatim>\<open>InvalidOperation\<close>\<close>
  "dec_lt0 d =
     (case d of
        Finite r \<Rightarrow> Inr (r < 0)
      | Infinity neg \<Rightarrow> Inr neg
      | NaN \<Rightarrow> Inl InvalidOperation
      | sNaN \<Rightarrow> Inl InvalidOperation)"

definition dec_truthy :: "decimal \<Rightarrow> bool" where
  \<comment> \<open>\<^verbatim>\<open>bool(d)\<close>: false for a zero only\<close>
  "dec_truthy d = (case d of Finite r \<Rightarrow> r \<noteq> 0 | _ \<Rightarrow> True)"

section \<open>parsers.py: parse_decimal\<close>

definition parse_decimal :: "ustring \<Rightarrow> error + decimal option" where
  \<comment> \<open>the three characters removed are the dollar sign, the euro sign (U+20AC) and the
      comma; \<^verbatim>\<open>InvalidOperation\<close> is caught and becomes \<^verbatim>\<open>None\<close>, any other
      exception would propagate\<close>
  "parse_decimal value_str =
     (if value_str = [] \<or> ustrip value_str = [] then Inr None
      else
        let cleaned = ustrip (remove_chr 0x2C (remove_chr 0x20AC (remove_chr 0x24 value_str)))
        in case Decimal cleaned of
             Inr d \<Rightarrow> Inr (Some d)
           | Inl InvalidOperation \<Rightarrow> Inr None
           | Inl e \<Rightarrow> Inl e)"


definition dec_ge0 :: "decimal \<Rightarrow> error + bool" where
  \<comment> \<open>\<^verbatim>\<open>d >= 0\<close>\<close>
  "dec_ge0 d =
     (case d of
        Finite r \<Rightarrow> Inr (0 \<le> r)
      | Infinity neg \<Rightarrow> Inr (\<not> neg)
      | NaN \<Rightarrow> Inl InvalidOperation
      | sNaN \<Rightarrow> Inl InvalidOperation)"

section \<open>models.py: the enumerations\<close>

datatype TransactionType =
    BUY | SELL | BUY_TO_OPEN | SELL_TO_OPEN | BUY_TO_CLOSE | SELL_TO_CLOSE
  | OPTION_EXERCISE | OPTION_ASSIGNMENT | OPTION_EXPIRATION
  | DIVIDEND | INTEREST | DEPOSIT | WITHDRAWAL | TRANSFER_IN | TRANSFER_OUT
  | FEE | SPLIT | OTHER

datatype InstrumentType = STOCK | ETF | OPTION | CASH | OTHER_INSTRUMENT

datatype OptionType = CALL | PUT

fun tt_value :: "TransactionType \<Rightarrow> string" where
  \<comment> \<open>\<^verbatim>\<open>TransactionType.X.value\<close>\<close>
  "tt_value BUY = ''buy''"
| "tt_value SELL = ''sell''"
| "tt_value BUY_TO_OPEN = ''buy_to_open''"
| "tt_value SELL_TO_OPEN = ''sell_to_open''"
| "tt_value BUY_TO_CLOSE = ''buy_to_close''"
| "tt_value SELL_TO_CLOSE = ''sell_to_close''"
| "tt_value OPTION_EXERCISE = ''option_exercise''"
| "tt_value OPTION_ASSIGNMENT = ''option_assignment''"
| "tt_value OPTION_EXPIRATION = ''option_expiration''"
| "tt_value DIVIDEND = ''dividend''"
| "tt_value INTEREST = ''interest''"
| "tt_value DEPOSIT = ''deposit''"
| "tt_value WITHDRAWAL = ''withdrawal''"
| "tt_value TRANSFER_IN = ''transfer_in''"
| "tt_value TRANSFER_OUT = ''transfer_out''"
| "tt_value FEE = ''fee''"
| "tt_value SPLIT = ''split''"
| "tt_value OTHER = ''other''"

definition all_transaction_types :: "TransactionType list" where
  "all_transaction_types =
     [BUY, SELL, BUY_TO_OPEN, SELL_TO_OPEN, BUY_TO_CLOSE, SELL_TO_CLOSE,
      OPTION_EXERCISE, OPTION_ASSIGNMENT, OPTION_EXPIRATION,
      DIVIDEND, INTEREST, DEPOSIT, WITHDRAWAL, TRANSFER_IN, TRANSFER_OUT,
      FEE, SPLIT, OTHER]"

definition TransactionType_of :: "string \<Rightarrow> error + TransactionType" where
  \<comment> \<open>the enum lookup by value, \<^verbatim>\<open>TransactionType(v)\<close>: \<^verbatim>\<open>ValueError\<close> on no member\<close>
  "TransactionType_of v =
     (case find (\<lambda>t. tt_value t = v) all_transaction_types of
        Some t \<Rightarrow> Inr t
      | None \<Rightarrow> Inl (ValueError v))"

fun it_value :: "InstrumentType \<Rightarrow> string" where
  "it_value STOCK = ''stock''"
| "it_value ETF = ''etf''"
| "it_value OPTION = ''option''"
| "it_value CASH = ''cash''"
| "it_value OTHER_INSTRUMENT = ''other''"

definition InstrumentType_of :: "string \<Rightarrow> error + InstrumentType" where
  "InstrumentType_of v =
     (case find (\<lambda>t. it_value t = v) [STOCK, ETF, OPTION, CASH, OTHER_INSTRUMENT] of
        Some t \<Rightarrow> Inr t
      | None \<Rightarrow> Inl (ValueError v))"

fun ot_value :: "OptionType \<Rightarrow> string" where
  "ot_value CALL = ''call''"
| "ot_value PUT = ''put''"

definition OptionType_of :: "string \<Rightarrow> error + OptionType" where
  "OptionType_of v =
     (case find (\<lambda>t. ot_value t = v) [CALL, PUT] of
        Some t \<Rightarrow> Inr t
      | None \<Rightarrow> Inl (ValueError v))"

section \<open>utils.py: the broker mapping store\<close>

text \<open>
  \<^verbatim>\<open>TransactionTypeMapper.mappings\<close> is a dictionary from a broker name to a dictionary
  from an action text to a transaction type's value. Python dictionaries iterate in
  insertion order and the lookup below takes the first key that matches, so both levels
  are association lists. The process-wide singleton \<^verbatim>\<open>transaction_type_mapper\<close> is
  passed as the argument \<open>mappings\<close>.
\<close>

type_synonym bucket = "(string \<times> string) list"
type_synonym mappings = "(string \<times> bucket) list"

definition default_mappings :: mappings where
  \<comment> \<open>\<^verbatim>\<open>_init_default_mappings\<close>\<close>
  "default_mappings =
    [(''general'',
       [(''buy'', tt_value BUY),
        (''sell'', tt_value SELL),
        (''dividend'', tt_value DIVIDEND),
        (''interest'', tt_value INTEREST),
        (''deposit'', tt_value DEPOSIT),
        (''withdrawal'', tt_value WITHDRAWAL),
        (''fee'', tt_value FEE),
        (''split'', tt_value SPLIT),
        (''transfer'', tt_value TRANSFER_IN),
        (''journal'', tt_value TRANSFER_IN),
        (''transfer shares'', tt_value TRANSFER_IN),
        (''journal shares'', tt_value TRANSFER_IN),
        (''transfer securities'', tt_value TRANSFER_IN),
        (''transfer funds'', tt_value TRANSFER_IN),
        (''securities transferred'', tt_value TRANSFER_IN)]),
     (''fidelity'',
       [(''bought'', tt_value BUY),
        (''sold'', tt_value SELL),
        (''cash contribution'', tt_value DEPOSIT),
        (''dividend received'', tt_value DIVIDEND),
        (''reinvestment'', tt_value BUY),
        (''transferred in'', tt_value TRANSFER_IN),
        (''transferred out'', tt_value TRANSFER_OUT),
        (''journaled'', tt_value TRANSFER_IN)]),
     (''schwab'',
       [(''bought'', tt_value BUY),
        (''sold'', tt_value SELL),
        (''qualified dividend'', tt_value DIVIDEND),
        (''non-qualified dividend'', tt_value DIVIDEND),
        (''bank interest'', tt_value INTEREST),
        (''service fee'', tt_value FEE),
        (''journal'', tt_value TRANSFER_IN),
        (''MoneyLink Transfer'', tt_value TRANSFER_IN)]),
     (''robinhood'',
       [(''market buy'', tt_value BUY),
        (''market sell'', tt_value SELL),
        (''limit buy'', tt_value BUY),
        (''limit sell'', tt_value SELL),
        (''dividend'', tt_value DIVIDEND),
        (''deposit'', tt_value DEPOSIT),
        (''withdrawal'', tt_value WITHDRAWAL),
        (''transfer'', tt_value TRANSFER_IN)]),
     (''ibkr'',
       [(''buy'', tt_value BUY),
        (''sell'', tt_value SELL),
        (''dividend'', tt_value DIVIDEND),
        (''deposit'', tt_value DEPOSIT),
        (''withdrawal'', tt_value WITHDRAWAL),
        (''transfer'', tt_value TRANSFER_IN),
        (''cash transfer'', tt_value TRANSFER_IN)]),
     (''tdameritrade'',
       [(''bought'', tt_value BUY),
        (''sold'', tt_value SELL),
        (''reinvestment'', tt_value BUY),
        (''dividend'', tt_value DIVIDEND),
        (''transfer'', tt_value TRANSFER_IN)])]"

definition first_match :: "(string \<times> 'a) list \<Rightarrow> string \<Rightarrow> 'a option" where
  \<comment> \<open>\<^verbatim>\<open>for key, value in d.items(): if key in action: result = value; break\<close>\<close>
  "first_match d action = map_option snd (find (\<lambda>(key, v). contains key action) d)"

definition mapper_lookup :: "mappings \<Rightarrow> string \<Rightarrow> string option \<Rightarrow> string option" where
  \<comment> \<open>the two scans of \<^verbatim>\<open>get_transaction_type\<close>: the broker's bucket when
      \<^verbatim>\<open>broker and broker.lower() in self.mappings\<close>, then the general bucket when
      \<^verbatim>\<open>result is None\<close>\<close>
  "mapper_lookup mappings action_lower broker =
     (let result =
            (case broker of
               None \<Rightarrow> None
             | Some b \<Rightarrow>
                 if b = [] then None
                 else (case map_of mappings (lower b) of
                         None \<Rightarrow> None
                       | Some d \<Rightarrow> first_match d action_lower))
      in if result = None
         then (case map_of mappings ''general'' of
                 None \<Rightarrow> None
               | Some d \<Rightarrow> first_match d action_lower)
         else result)"

definition adjust_transfer :: "string option \<Rightarrow> decimal option \<Rightarrow> error + string option" where
  \<comment> \<open>\<^verbatim>\<open>if result in [TRANSFER_IN.value, TRANSFER_OUT.value] and quantity is not None\<close>:
      the direction follows the sign of the quantity\<close>
  "adjust_transfer result quantity =
     (case quantity of
        None \<Rightarrow> Inr result
      | Some q \<Rightarrow>
          if result = Some (tt_value TRANSFER_IN) \<or> result = Some (tt_value TRANSFER_OUT)
          then (case dec_lt0 q of
                  Inl e \<Rightarrow> Inl e
                | Inr neg \<Rightarrow> Inr (Some (if neg then tt_value TRANSFER_OUT
                                         else tt_value TRANSFER_IN)))
          else Inr result)"

definition to_transaction_type :: "string option \<Rightarrow> error + TransactionType option" where
  \<comment> \<open>\<^verbatim>\<open>TransactionType(result)\<close>, with its \<^verbatim>\<open>ValueError\<close> caught and turned into
      \<^verbatim>\<open>None\<close>\<close>
  "to_transaction_type result =
     (case result of
        None \<Rightarrow> Inr None
      | Some v \<Rightarrow> (case TransactionType_of v of
                     Inr t \<Rightarrow> Inr (Some t)
                   | Inl (ValueError _) \<Rightarrow> Inr None
                   | Inl e \<Rightarrow> Inl e))"

definition get_transaction_type ::
  "mappings \<Rightarrow> string \<Rightarrow> string option \<Rightarrow> decimal option \<Rightarrow> error + TransactionType option" where
  "get_transaction_type mappings action_text broker quantity =
     (let action_lower = lower action_text
      in case adjust_transfer (mapper_lookup mappings action_lower broker) quantity of
           Inl e \<Rightarrow> Inl e
         | Inr result \<Rightarrow> to_transaction_type result)"

section \<open>parsers.py: standardize_option_transaction_type\<close>

definition option_action_mapping :: "(string \<times> TransactionType) list" where
  "option_action_mapping =
     [(''buy to open'', BUY_TO_OPEN),
      (''bto'', BUY_TO_OPEN),
      (''open buy'', BUY_TO_OPEN),
      (''opening purchase'', BUY_TO_OPEN),
      (''sell to open'', SELL_TO_OPEN),
      (''sto'', SELL_TO_OPEN),
      (''open sell'', SELL_TO_OPEN),
      (''opening sale'', SELL_TO_OPEN),
      (''option writing'', SELL_TO_OPEN),
      (''write'', SELL_TO_OPEN),
      (''buy to close'', BUY_TO_CLOSE),
      (''btc'', BUY_TO_CLOSE),
      (''close buy'', BUY_TO_CLOSE),
      (''closing purchase'', BUY_TO_CLOSE),
      (''sell to close'', SELL_TO_CLOSE),
      (''stc'', SELL_TO_CLOSE),
      (''close sell'', SELL_TO_CLOSE),
      (''closing sale'', SELL_TO_CLOSE),
      (''exercise'', OPTION_EXERCISE),
      (''exercised'', OPTION_EXERCISE),
      (''assignment'', OPTION_ASSIGNMENT),
      (''assigned'', OPTION_ASSIGNMENT),
      (''expiration'', OPTION_EXPIRATION),
      (''expired'', OPTION_EXPIRATION),
      (''worthless'', OPTION_EXPIRATION)]"

definition standard_fallback :: "string \<Rightarrow> decimal option \<Rightarrow> error + TransactionType" where
  \<comment> \<open>the closing \<^verbatim>\<open>if/elif\<close> chain over the standard transaction types\<close>
  "standard_fallback action quantity =
     (if contains ''buy'' action then Inr BUY
      else if contains ''sell'' action then Inr SELL
      else if contains ''dividend'' action then Inr DIVIDEND
      else if contains ''interest'' action then Inr INTEREST
      else if contains ''deposit'' action then Inr DEPOSIT
      else if contains ''withdrawal'' action then Inr WITHDRAWAL
      else if contains ''transfer'' action \<or> contains ''journal'' action then
        (case quantity of
           Some q \<Rightarrow> (case dec_lt0 q of
                        Inl e \<Rightarrow> Inl e
                      | Inr neg \<Rightarrow> Inr (if neg then TRANSFER_OUT else TRANSFER_IN))
         | None \<Rightarrow> Inr TRANSFER_IN)
      else if contains ''fee'' action then Inr FEE
      else if contains ''split'' action then Inr SPLIT
      else Inr OTHER)"

definition standardize_option_transaction_type ::
  "mappings \<Rightarrow> string \<Rightarrow> bool \<Rightarrow> decimal option \<Rightarrow> string option \<Rightarrow> error + TransactionType" where
  "standardize_option_transaction_type mappings action_str is_option quantity broker =
     (let action = strip (lower action_str) in
      case get_transaction_type mappings action broker quantity of
        Inl e \<Rightarrow> Inl e
      | Inr (Some mapped_type) \<Rightarrow> Inr mapped_type
      | Inr None \<Rightarrow>
          (case first_match option_action_mapping action of
             Some v \<Rightarrow> Inr v
           | None \<Rightarrow>
               if is_option \<and> (contains ''buy'' action \<or> contains ''purchase'' action)
               then Inr BUY_TO_OPEN
               else if is_option \<and> contains ''sell'' action then Inr SELL_TO_CLOSE
               else standard_fallback action quantity))"

definition is_transfer :: "TransactionType \<Rightarrow> bool" where
  "is_transfer t = (t = TRANSFER_IN \<or> t = TRANSFER_OUT)"

section \<open>Regular expressions\<close>

text \<open>
  The fragment of Python's \<^verbatim>\<open>re\<close> that the importer's patterns use. \<open>rmatch r s caps\<close>
  lists, in the order in which Python's backtracking matcher would try them, the ways to
  match \<open>r\<close> at the start of \<open>s\<close>: each is the rest of the input with the captured groups
  (the groups of these patterns are neither nested nor repeated, so the captures in the
  order of their closing are groups 1, 2, ...). The first element is the match that
  Python reports. Greedy repetition is over character classes only, which is all the
  patterns need. \<open>LitI\<close> is a literal under \<^verbatim>\<open>re.IGNORECASE\<close>; \<open>Eol\<close> is \<^verbatim>\<open>$\<close>,
  which matches at the end and before a final newline.
\<close>

datatype re =
    Chr "char \<Rightarrow> bool"
  | Lit string
  | LitI string
  | Seq re re
  | Alt re re
  | Opt re
  | Many "char \<Rightarrow> bool" nat "nat option"
  | Grp re
  | Eol

fun rmatch :: "re \<Rightarrow> string \<Rightarrow> string list \<Rightarrow> (string \<times> string list) list" where
  "rmatch (Chr p) s caps = (case s of [] \<Rightarrow> [] | c # cs \<Rightarrow> if p c then [(cs, caps)] else [])"
| "rmatch (Lit l) s caps = (if prefix l s then [(drop (length l) s, caps)] else [])"
| "rmatch (LitI l) s caps =
     (if length l \<le> length s \<and> lower (take (length l) s) = lower l
      then [(drop (length l) s, caps)] else [])"
| "rmatch (Seq a b) s caps = concat (map (\<lambda>(r, c). rmatch b r c) (rmatch a s caps))"
| "rmatch (Alt a b) s caps = rmatch a s caps @ rmatch b s caps"
| "rmatch (Opt a) s caps = rmatch a s caps @ [(s, caps)]"
| "rmatch (Many p m n) s caps =
     (let k = length (takeWhile p s);
          hi = (case n of None \<Rightarrow> k | Some n' \<Rightarrow> min n' k)
      in map (\<lambda>i. (drop i s, caps)) (rev [m..<Suc hi]))"
| "rmatch (Grp a) s caps =
     map (\<lambda>(r, c). (r, c @ [take (length s - length r) s])) (rmatch a s caps)"
| "rmatch Eol s caps = (if s = [] \<or> s = [CHR 0x0A] then [(s, caps)] else [])"

definition re_match :: "re \<Rightarrow> string \<Rightarrow> (string \<times> string list) option" where
  \<comment> \<open>\<^verbatim>\<open>re.match\<close>: the unconsumed rest and the groups\<close>
  "re_match r s = (case rmatch r s [] of [] \<Rightarrow> None | x # _ \<Rightarrow> Some x)"

fun re_search :: "re \<Rightarrow> string \<Rightarrow> string list option" where
  \<comment> \<open>\<^verbatim>\<open>re.search\<close>: the groups of the leftmost match\<close>
  "re_search r [] = (case rmatch r [] [] of [] \<Rightarrow> None | (_, caps) # _ \<Rightarrow> Some caps)"
| "re_search r (c # cs) =
     (case rmatch r (c # cs) [] of [] \<Rightarrow> re_search r cs | (_, caps) # _ \<Rightarrow> Some caps)"

definition in_range :: "char \<Rightarrow> char \<Rightarrow> char \<Rightarrow> bool" where
  \<comment> \<open>the class \<^verbatim>\<open>[a-b]\<close>\<close>
  "in_range a b c = ((of_char a :: int) \<le> of_char c \<and> (of_char c :: int) \<le> of_char b)"

definition digits_between :: "nat \<Rightarrow> nat \<Rightarrow> re" where
  \<comment> \<open>\<^verbatim>\<open>[0-9]{m,n}\<close>\<close>
  "digits_between m n = Many is_digit m (Some n)"

section \<open>Dates and strptime\<close>

datatype date = Date int int int

definition is_leap :: "int \<Rightarrow> bool" where
  "is_leap y = (y mod 4 = 0 \<and> (y mod 100 \<noteq> 0 \<or> y mod 400 = 0))"

definition days_in_month :: "int \<Rightarrow> int \<Rightarrow> int" where
  "days_in_month y m =
     (if m = 2 then (if is_leap y then 29 else 28)
      else if m = 4 \<or> m = 6 \<or> m = 9 \<or> m = 11 then 30 else 31)"

definition make_date :: "int \<Rightarrow> int \<Rightarrow> int \<Rightarrow> error + date" where
  \<comment> \<open>the constructor \<^verbatim>\<open>date(year, month, day)\<close>, which raises \<^verbatim>\<open>ValueError\<close> outside
      the calendar\<close>
  "make_date y m d =
     (if 1 \<le> y \<and> y \<le> 9999 \<and> 1 \<le> m \<and> m \<le> 12 \<and> 1 \<le> d \<and> d \<le> days_in_month y m
      then Inr (Date y m d) else Inl (ValueError ''date value out of range''))"

definition py_int :: "string \<Rightarrow> int" where
  \<comment> \<open>\<^verbatim>\<open>int(s)\<close> on the digit strings that the patterns capture (a leading space allowed)\<close>
  "py_int s = digits_val (strip s)"

text \<open>
  The directives of \<^verbatim>\<open>_strptime.TimeRE\<close>: \<^verbatim>\<open>%Y\<close> is \<^verbatim>\<open>(\d\d\d\d)\<close>, \<^verbatim>\<open>%m\<close> is
  \<^verbatim>\<open>(1[0-2]|0[1-9]|[1-9])\<close> and \<^verbatim>\<open>%d\<close> is \<^verbatim>\<open>(3[0-1]|[1-2]\d|0[1-9]|[1-9]| [1-9])\<close>.
\<close>

definition re_Y :: re where
  "re_Y = Grp (Seq (Chr is_digit) (Seq (Chr is_digit) (Seq (Chr is_digit) (Chr is_digit))))"

definition re_m :: re where
  "re_m = Grp (Alt (Seq (Lit ''1'') (Chr (in_range (CHR ''0'') (CHR ''2''))))
               (Alt (Seq (Lit ''0'') (Chr (in_range (CHR ''1'') (CHR ''9''))))
                    (Chr (in_range (CHR ''1'') (CHR ''9'')))))"

definition re_d :: re where
  "re_d = Grp (Alt (Seq (Lit ''3'') (Chr (in_range (CHR ''0'') (CHR ''1''))))
               (Alt (Seq (Chr (in_range (CHR ''1'') (CHR ''2''))) (Chr is_digit))
               (Alt (Seq (Lit ''0'') (Chr (in_range (CHR ''1'') (CHR ''9''))))
               (Alt (Chr (in_range (CHR ''1'') (CHR ''9'')))
                    (Seq (Lit '' '') (Chr (in_range (CHR ''1'') (CHR ''9''))))))))"

datatype date_format = ISO | US | EU | DASHED

fun format_re :: "date_format \<Rightarrow> re" where
  "format_re ISO = Seq re_Y (Seq (Lit ''-'') (Seq re_m (Seq (Lit ''-'') re_d)))"
| "format_re US = Seq re_m (Seq (Lit ''/'') (Seq re_d (Seq (Lit ''/'') re_Y)))"
| "format_re EU = Seq re_d (Seq (Lit ''/'') (Seq re_m (Seq (Lit ''/'') re_Y)))"
| "format_re DASHED = Seq re_d (Seq (Lit ''-'') (Seq re_m (Seq (Lit ''-'') re_Y)))"

fun format_fields :: "date_format \<Rightarrow> string list \<Rightarrow> (string \<times> string \<times> string) option" where
  \<comment> \<open>year, month and day among the groups of a format\<close>
  "format_fields ISO [y, m, d] = Some (y, m, d)"
| "format_fields US [m, d, y] = Some (y, m, d)"
| "format_fields EU [d, m, y] = Some (y, m, d)"
| "format_fields DASHED [d, m, y] = Some (y, m, d)"
| "format_fields _ _ = None"

definition strptime :: "string \<Rightarrow> date_format \<Rightarrow> error + date" where
  \<comment> \<open>\<^verbatim>\<open>datetime.strptime(s, fmt).date()\<close> for the four formats \<^verbatim>\<open>%Y-%m-%d\<close>,
      \<^verbatim>\<open>%m/%d/%Y\<close>, \<^verbatim>\<open>%d/%m/%Y\<close> and \<^verbatim>\<open>%d-%m-%Y\<close>: the format's pattern must
      match and consume the whole string, and the fields must be a date\<close>
  "strptime data_string fmt =
     (case re_match (format_re fmt) data_string of
        None \<Rightarrow> Inl (ValueError ''time data does not match format'')
      | Some (rest, groups) \<Rightarrow>
          if rest \<noteq> [] then Inl (ValueError ''unconverted data remains'')
          else (case format_fields fmt groups of
                  None \<Rightarrow> Inl (ValueError ''time data does not match format'')
                | Some (y, m, d) \<Rightarrow> make_date (py_int y) (py_int m) (py_int d)))"

section \<open>parsers.py: parse_date\<close>

definition slash_date_re :: "nat \<Rightarrow> nat \<Rightarrow> re" where
  \<comment> \<open>\<^verbatim>\<open>[0-9]{1,2}/[0-9]{1,2}/[0-9]{a,b}\<close>\<close>
  "slash_date_re a b =
     Seq (digits_between 1 2) (Seq (Lit ''/'') (Seq (digits_between 1 2)
       (Seq (Lit ''/'') (digits_between a b))))"

definition dash_date_re :: re where
  \<comment> \<open>\<^verbatim>\<open>[0-9]{4}-[0-9]{1,2}-[0-9]{1,2}\<close>\<close>
  "dash_date_re =
     Seq (digits_between 4 4) (Seq (Lit ''-'') (Seq (digits_between 1 2)
       (Seq (Lit ''-'') (digits_between 1 2))))"

definition date_pattern :: re where
  \<comment> \<open>\<^verbatim>\<open>([0-9]{1,2}/[0-9]{1,2}/[0-9]{2,4}|[0-9]{4}-[0-9]{1,2}-[0-9]{1,2})\<close>\<close>
  "date_pattern = Grp (Alt (slash_date_re 2 4) dash_date_re)"

definition as_of_pattern :: re where
  \<comment> \<open>\<^verbatim>\<open>as of (...)\<close> with the group of \<open>date_pattern\<close>, under \<^verbatim>\<open>re.IGNORECASE\<close>\<close>
  "as_of_pattern = Seq (LitI ''as of '') date_pattern"

definition formats :: "date_format list" where
  "formats = [ISO, US, EU, DASHED]"

fun try_formats :: "date_format list \<Rightarrow> string \<Rightarrow> error + date option" where
  \<comment> \<open>the loop \<^verbatim>\<open>for fmt in formats: try: return strptime(...) except ValueError: continue\<close>;
      \<open>Inr None\<close> when the loop ends without a return\<close>
  "try_formats [] s = Inr None"
| "try_formats (fmt # fs) s =
     (case strptime s fmt of
        Inr d \<Rightarrow> Inr (Some d)
      | Inl (ValueError _) \<Rightarrow> try_formats fs s
      | Inl e \<Rightarrow> Inl e)"

definition group1 :: "string list \<Rightarrow> string" where
  \<comment> \<open>\<^verbatim>\<open>m.group(1)\<close> of a match of a pattern with one group\<close>
  "group1 caps = (case caps of [] \<Rightarrow> [] | g # _ \<Rightarrow> g)"

definition parse_date :: "string \<Rightarrow> error + date option" where
  "parse_date date_str0 =
     (let date_str = (case re_search as_of_pattern date_str0 of
                        Some caps \<Rightarrow> group1 caps
                      | None \<Rightarrow> date_str0)
      in case try_formats formats date_str of
           Inl e \<Rightarrow> Inl e
         | Inr (Some d) \<Rightarrow> Inr (Some d)
         | Inr None \<Rightarrow>
             \<comment> \<open>the second attempt runs under \<^verbatim>\<open>except Exception: pass\<close>\<close>
             (case re_search date_pattern date_str of
                None \<Rightarrow> Inr None
              | Some caps \<Rightarrow>
                  (case try_formats formats (group1 caps) of
                     Inl e \<Rightarrow> Inr None
                   | Inr r \<Rightarrow> Inr r)))"

section \<open>Date strings\<close>

text \<open>
  The strings that \<^verbatim>\<open>strftime\<close> writes for a date in the ISO (\<^verbatim>\<open>%Y-%m-%d\<close>), US
  (\<^verbatim>\<open>%m/%d/%Y\<close>) and European (\<^verbatim>\<open>%d/%m/%Y\<close>) formats: zero-padded fields.
\<close>

definition digit_chr :: "int \<Rightarrow> char" where
  "digit_chr k =
     (if k = 0 then CHR ''0'' else if k = 1 then CHR ''1'' else if k = 2 then CHR ''2''
      else if k = 3 then CHR ''3'' else if k = 4 then CHR ''4'' else if k = 5 then CHR ''5''
      else if k = 6 then CHR ''6'' else if k = 7 then CHR ''7'' else if k = 8 then CHR ''8''
      else CHR ''9'')"

definition pad2 :: "int \<Rightarrow> string" where
  "pad2 n = [digit_chr (n div 10 mod 10), digit_chr (n mod 10)]"

definition pad4 :: "int \<Rightarrow> string" where
  "pad4 n = [digit_chr (n div 1000 mod 10), digit_chr (n div 100 mod 10),
             digit_chr (n div 10 mod 10), digit_chr (n mod 10)]"

definition iso_string :: "int \<Rightarrow> int \<Rightarrow> int \<Rightarrow> string" where
  "iso_string y m d = pad4 y @ ''-'' @ pad2 m @ ''-'' @ pad2 d"

definition us_string :: "int \<Rightarrow> int \<Rightarrow> int \<Rightarrow> string" where
  "us_string y m d = pad2 m @ ''/'' @ pad2 d @ ''/'' @ pad4 y"

definition eu_string :: "int \<Rightarrow> int \<Rightarrow> int \<Rightarrow> string" where
  "eu_string y m d = pad2 d @ ''/'' @ pad2 m @ ''/'' @ pad4 y"

fun re_alphabet :: "(char \<Rightarrow> bool) \<Rightarrow> re \<Rightarrow> bool" where
  \<comment> \<open>every character that the expression can consume satisfies \<open>Q\<close>\<close>
  "re_alphabet Q (Chr p) = (\<forall>c. p c \<longrightarrow> Q c)"
| "re_alphabet Q (Lit l) = list_all Q l"
| "re_alphabet Q (LitI l) = (\<forall>c. lower_chr c \<in> lower_chr ` set l \<longrightarrow> Q c)"
| "re_alphabet Q (Seq a b) = (re_alphabet Q a \<and> re_alphabet Q b)"
| "re_alphabet Q (Alt a b) = (re_alphabet Q a \<and> re_alphabet Q b)"
| "re_alphabet Q (Opt a) = re_alphabet Q a"
| "re_alphabet Q (Many p m n) = (\<forall>c. p c \<longrightarrow> Q c)"
| "re_alphabet Q (Grp a) = re_alphabet Q a"
| "re_alphabet Q Eol = True"

definition date_chr :: "char \<Rightarrow> bool" where
  \<comment> \<open>the characters of a date-like substring\<close>
  "date_chr c = (is_digit c \<or> c = CHR ''/'' \<or> c = CHR ''-'')"

section \<open>parsers.py: parse_option_details\<close>

record OptionDetails =
  is_option :: bool
  ticker :: string
  option_type :: "OptionType option"
  expiration_date :: "date option"
  strike_price :: "decimal option"

definition dec_div_int :: "decimal \<Rightarrow> int \<Rightarrow> error + decimal" where
  \<comment> \<open>\<^verbatim>\<open>d / k\<close> for a non-zero integer \<open>k\<close>\<close>
  "dec_div_int d k =
     (case d of
        Finite r \<Rightarrow> Inr (Finite (r * Fract 1 k))
      | Infinity neg \<Rightarrow> Inr (Infinity (neg \<noteq> (k < 0)))
      | NaN \<Rightarrow> Inr NaN
      | sNaN \<Rightarrow> Inl InvalidOperation)"

definition occ_pattern :: re where
  \<comment> \<open>\<^verbatim>\<open>^([A-Z]+)([0-9]{6})([CP])([0-9]{8})$\<close>, used with \<^verbatim>\<open>re.match\<close>\<close>
  "occ_pattern =
     Seq (Grp (Many is_upper 1 None))
    (Seq (Grp (Many is_digit 6 (Some 6)))
    (Seq (Grp (Chr (\<lambda>c. c = CHR ''C'' \<or> c = CHR ''P'')))
    (Seq (Grp (Many is_digit 8 (Some 8))) Eol)))"

definition ticker_pattern :: re where
  \<comment> \<open>\<^verbatim>\<open>^(?:CALL|PUT)\s+([A-Z\s]+)\s\<close>; the anchor makes \<^verbatim>\<open>re.search\<close> a match at
      the start\<close>
  "ticker_pattern =
     Seq (Alt (Lit ''CALL'') (Lit ''PUT''))
    (Seq (Many is_space 1 None)
    (Seq (Grp (Many (\<lambda>c. is_upper c \<or> is_space c) 1 None))
         (Chr is_space)))"

definition number_re :: re where
  \<comment> \<open>\<^verbatim>\<open>[0-9]+(?:\.[0-9]+)?\<close>\<close>
  "number_re = Seq (Many is_digit 1 None) (Opt (Seq (Lit ''.'') (Many is_digit 1 None)))"

definition price_patterns :: "re list" where
  \<comment> \<open>\<^verbatim>\<open>\$(N)\<close>, \<^verbatim>\<open>(N)\s*(?:strike|put|call)\<close> and \<^verbatim>\<open>(N)\<close>\<close>
  "price_patterns =
     [Seq (Lit ''$'') (Grp number_re),
      Seq (Grp number_re)
        (Seq (Many is_space 0 None) (Alt (Lit ''strike'') (Alt (Lit ''put'') (Lit ''call'')))),
      Grp number_re]"

definition short_date_re :: re where
  \<comment> \<open>\<^verbatim>\<open>[0-9]{1,2}/[0-9]{1,2}/(?:[0-9]{2}|[0-9]{4})\<close>\<close>
  "short_date_re =
     Seq (digits_between 1 2) (Seq (Lit ''/'') (Seq (digits_between 1 2)
       (Seq (Lit ''/'') (Alt (digits_between 2 2) (digits_between 4 4)))))"

definition date_patterns :: "re list" where
  \<comment> \<open>\<^verbatim>\<open>exp\s+(D)\<close> and \<^verbatim>\<open>(D)\<close>, both under \<^verbatim>\<open>re.IGNORECASE\<close>\<close>
  "date_patterns =
     [Seq (LitI ''exp'') (Seq (Many is_space 1 None) (Grp short_date_re)),
      Grp short_date_re]"

definition init_result :: "string \<Rightarrow> OptionDetails" where
  "init_result symbol =
     \<lparr>is_option = False, ticker = symbol, option_type = None,
      expiration_date = None, strike_price = None\<rparr>"

definition occ_result :: "string list \<Rightarrow> error + OptionDetails" where
  \<comment> \<open>the branch \<^verbatim>\<open>if occ_match:\<close>, from the four groups\<close>
  "occ_result groups =
     (case groups of
        [tk, date_str, option_type_str, strike_str] \<Rightarrow>
          (let expiration =
                 (case make_date (2000 + py_int (take 2 date_str))
                                 (py_int (take 2 (drop 2 date_str)))
                                 (py_int (take 2 (drop 4 date_str))) of
                    Inr dt \<Rightarrow> Some dt
                  | Inl e \<Rightarrow> None);
               otype = (if option_type_str = ''C'' then Some CALL
                        else if option_type_str = ''P'' then Some PUT else None)
           in case (case Decimal (ustr strike_str) of
                      Inl e \<Rightarrow> Inl e
                    | Inr v \<Rightarrow> dec_div_int v 1000) of
                Inr strike \<Rightarrow>
                  Inr \<lparr>is_option = True, ticker = tk, option_type = otype,
                       expiration_date = expiration, strike_price = Some strike\<rparr>
              | Inl InvalidOperation \<Rightarrow>
                  Inr \<lparr>is_option = True, ticker = tk, option_type = otype,
                       expiration_date = expiration, strike_price = None\<rparr>
              | Inl (ValueError _) \<Rightarrow>
                  Inr \<lparr>is_option = True, ticker = tk, option_type = otype,
                       expiration_date = expiration, strike_price = None\<rparr>
              | Inl e \<Rightarrow> Inl e)
      | _ \<Rightarrow> Inl (KeyError ''group''))"

fun find_strike :: "re list \<Rightarrow> string \<Rightarrow> error + decimal option" where
  \<comment> \<open>the loop over \<^verbatim>\<open>price_patterns\<close>: the first pattern that is found and whose group
      is a Decimal gives the strike\<close>
  "find_strike [] description = Inr None"
| "find_strike (p # ps) description =
     (case re_search p description of
        None \<Rightarrow> find_strike ps description
      | Some caps \<Rightarrow>
          (case Decimal (ustr (group1 caps)) of
             Inr v \<Rightarrow> Inr (Some v)
           | Inl InvalidOperation \<Rightarrow> find_strike ps description
           | Inl (ValueError _) \<Rightarrow> find_strike ps description
           | Inl e \<Rightarrow> Inl e))"

fun find_expiration :: "re list \<Rightarrow> string \<Rightarrow> error + date option option" where
  \<comment> \<open>the loop over \<^verbatim>\<open>date_patterns\<close>: the first pattern that is found assigns whatever
      \<^verbatim>\<open>parse_date\<close> makes of its group (\<open>Some v\<close>), and the loop ends; \<open>None\<close> when
      no pattern is found\<close>
  "find_expiration [] description = Inr None"
| "find_expiration (p # ps) description =
     (case re_search p description of
        None \<Rightarrow> find_expiration ps description
      | Some caps \<Rightarrow>
          (case parse_date (group1 caps) of
             Inr r \<Rightarrow> Inr (Some r)
           | Inl (ValueError _) \<Rightarrow> find_expiration ps description
           | Inl e \<Rightarrow> Inl e))"

definition description_step :: "string \<Rightarrow> string \<Rightarrow> OptionDetails \<Rightarrow> error + OptionDetails" where
  \<comment> \<open>the body of \<^verbatim>\<open>if description:\<close>\<close>
  "description_step symbol description result =
     (let dl = lower description in
      if \<not> list_ex (\<lambda>indicator. contains indicator dl) [''call'', ''put'', ''exp'', ''$'', ''strike'']
      then Inr result
      else
        let r1 = result\<lparr>is_option := True\<rparr>;
            r2 = (if symbol = []
                  then (case re_match ticker_pattern description of
                          Some (rest, caps) \<Rightarrow> r1\<lparr>ticker := strip (group1 caps)\<rparr>
                        | None \<Rightarrow> r1)
                  else r1);
            r3 = (if contains ''call'' dl then r2\<lparr>option_type := Some CALL\<rparr>
                  else if contains ''put'' dl then r2\<lparr>option_type := Some PUT\<rparr>
                  else r2)
        in case find_strike price_patterns description of
             Inl e \<Rightarrow> Inl e
           | Inr strike \<Rightarrow>
               (let r4 = (case strike of None \<Rightarrow> r3 | Some v \<Rightarrow> r3\<lparr>strike_price := Some v\<rparr>)
                in case find_expiration date_patterns description of
                     Inl e \<Rightarrow> Inl e
                   | Inr None \<Rightarrow> Inr r4
                   | Inr (Some dt) \<Rightarrow> Inr (r4\<lparr>expiration_date := dt\<rparr>)))"

definition classify_part :: "string \<Rightarrow> OptionDetails \<Rightarrow> error + OptionDetails" where
  \<comment> \<open>one round of \<^verbatim>\<open>for part in parts[1:]\<close>: a date, else a strike, else an option
      type, each only while the field is still unset\<close>
  "classify_part part result =
     (case parse_date part of
        Inl e \<Rightarrow> Inl e
      | Inr date_val \<Rightarrow>
          if date_val \<noteq> None \<and> expiration_date result = None
          then Inr (result\<lparr>expiration_date := date_val\<rparr>)
          else
            let price_str = remove_chr (CHR '','') (remove_chr (CHR ''$'') part);
                unset = (case strike_price result of None \<Rightarrow> True | Some v \<Rightarrow> \<not> dec_truthy v);
                by_type =
                  (if upper part \<in> set [''C'', ''CALL''] \<and> option_type result = None
                   then result\<lparr>option_type := Some CALL\<rparr>
                   else if upper part \<in> set [''P'', ''PUT''] \<and> option_type result = None
                   then result\<lparr>option_type := Some PUT\<rparr>
                   else result)
            in case Decimal (ustr price_str) of
                 Inr price_val \<Rightarrow>
                   if unset then Inr (result\<lparr>strike_price := Some price_val\<rparr>)
                   else Inr by_type
               | Inl InvalidOperation \<Rightarrow> Inr by_type
               | Inl (ValueError _) \<Rightarrow> Inr by_type
               | Inl e \<Rightarrow> Inl e)"

fun classify_parts :: "string list \<Rightarrow> OptionDetails \<Rightarrow> error + OptionDetails" where
  "classify_parts [] result = Inr result"
| "classify_parts (part # parts) result =
     (case classify_part part result of
        Inl e \<Rightarrow> Inl e
      | Inr r \<Rightarrow> classify_parts parts r)"

definition space_step :: "string \<Rightarrow> OptionDetails \<Rightarrow> error + OptionDetails" where
  \<comment> \<open>the body of \<^verbatim>\<open>if ' ' in symbol:\<close>\<close>
  "space_step symbol result =
     (let parts = split_ws symbol in
      if 3 \<le> length parts
      then classify_parts (tl parts) (result\<lparr>ticker := hd parts, is_option := True\<rparr>)
      else Inr result)"

definition default_option_type :: "OptionDetails \<Rightarrow> OptionDetails" where
  \<comment> \<open>\<^verbatim>\<open>if result['is_option'] and not result['option_type']\<close>\<close>
  "default_option_type result =
     (if is_option result \<and> option_type result = None
      then result\<lparr>option_type := Some CALL\<rparr> else result)"

definition parse_steps :: "string \<Rightarrow> string option \<Rightarrow> error + OptionDetails" where
  \<comment> \<open>the description scan and the space-delimited symbol, before the default\<close>
  "parse_steps symbol description =
     (case (case description of
              None \<Rightarrow> Inr (init_result symbol)
            | Some ds \<Rightarrow> if ds = [] then Inr (init_result symbol)
                         else description_step symbol ds (init_result symbol)) of
        Inl e \<Rightarrow> Inl e
      | Inr r \<Rightarrow> if CHR '' '' \<in> set symbol then space_step symbol r else Inr r)"

definition parse_option_details :: "string \<Rightarrow> string option \<Rightarrow> error + OptionDetails" where
  "parse_option_details symbol description =
     (if symbol = [] \<and> (description = None \<or> description = Some [])
      then Inr (init_result symbol)
      else case re_match occ_pattern symbol of
             Some (rest, groups) \<Rightarrow> occ_result groups
           | None \<Rightarrow>
               (case parse_steps symbol description of
                  Inl e \<Rightarrow> Inl e
                | Inr r \<Rightarrow> Inr (default_option_type r)))"

section \<open>Python values and dictionaries\<close>

text \<open>
  The staged transaction is a \<^verbatim>\<open>Dict[str, Any]\<close>. Its values are modelled by \<open>pyval\<close>;
  a dictionary is an association list in insertion order (\<open>AList.update\<close> replaces the
  value of a present key in place and appends an absent key, as assignment to a Python
  dictionary does). A key that is present with the value \<^verbatim>\<open>None\<close> is \<open>Some PNone\<close>,
  an absent key is \<open>None\<close>.
\<close>

datatype pyval =
    PNone
  | PBool bool
  | PStr string
  | PInt int
  | PDec decimal
  | PDate date
  | PTType TransactionType
  | PIType InstrumentType
  | POType OptionType
  | PList "pyval list"
  | PDict "(string \<times> pyval) list"

type_synonym pydict = "(string \<times> pyval) list"

definition truthy :: "pyval \<Rightarrow> bool" where
  \<comment> \<open>\<^verbatim>\<open>bool(v)\<close>\<close>
  "truthy v =
     (case v of
        PNone \<Rightarrow> False
      | PBool b \<Rightarrow> b
      | PStr s \<Rightarrow> s \<noteq> []
      | PInt n \<Rightarrow> n \<noteq> 0
      | PDec d \<Rightarrow> dec_truthy d
      | PList l \<Rightarrow> l \<noteq> []
      | PDict d \<Rightarrow> d \<noteq> []
      | _ \<Rightarrow> True)"

definition dget :: "pydict \<Rightarrow> string \<Rightarrow> pyval" where
  \<comment> \<open>\<^verbatim>\<open>d.get(k)\<close>\<close>
  "dget d k = (case map_of d k of None \<Rightarrow> PNone | Some v \<Rightarrow> v)"

definition dset :: "string \<Rightarrow> pyval \<Rightarrow> pydict \<Rightarrow> pydict" where
  \<comment> \<open>\<^verbatim>\<open>d[k] = v\<close>\<close>
  "dset k v d = AList.update k v d"

definition has_key :: "pydict \<Rightarrow> string \<Rightarrow> bool" where
  \<comment> \<open>\<^verbatim>\<open>k in d\<close>\<close>
  "has_key d k = (map_of d k \<noteq> None)"

definition opt_val :: "('a \<Rightarrow> pyval) \<Rightarrow> 'a option \<Rightarrow> pyval" where
  \<comment> \<open>an \<^verbatim>\<open>Optional\<close> result as a Python value\<close>
  "opt_val f x = (case x of None \<Rightarrow> PNone | Some v \<Rightarrow> f v)"

definition errors_of :: "pydict \<Rightarrow> pyval list" where
  \<comment> \<open>the list under \<^verbatim>\<open>'errors'\<close> (empty when there is none)\<close>
  "errors_of t = (case map_of t ''errors'' of Some (PList es) \<Rightarrow> es | _ \<Rightarrow> [])"

definition warnings_of :: "pydict \<Rightarrow> pyval list" where
  "warnings_of t = (case map_of t ''warnings'' of Some (PList ws) \<Rightarrow> ws | _ \<Rightarrow> [])"

definition append_error :: "string \<Rightarrow> pydict \<Rightarrow> pydict" where
  \<comment> \<open>\<^verbatim>\<open>transaction['errors'].append(msg)\<close>\<close>
  "append_error msg t = dset ''errors'' (PList (errors_of t @ [PStr msg])) t"

definition append_warning :: "string \<Rightarrow> pydict \<Rightarrow> pydict" where
  "append_warning msg t = dset ''warnings'' (PList (warnings_of t @ [PStr msg])) t"

section \<open>Decimal arithmetic\<close>

definition dec_mul :: "decimal \<Rightarrow> decimal \<Rightarrow> error + decimal" where
  \<comment> \<open>\<^verbatim>\<open>a * b\<close>: a signalling NaN and infinity times zero raise, a quiet NaN propagates\<close>
  "dec_mul a b =
     (if a = sNaN \<or> b = sNaN then Inl InvalidOperation
      else if a = NaN \<or> b = NaN then Inr NaN
      else case (a, b) of
             (Finite x, Finite y) \<Rightarrow> Inr (Finite (x * y))
           | (Infinity n, Finite y) \<Rightarrow>
               if y = 0 then Inl InvalidOperation else Inr (Infinity (n \<noteq> (y < 0)))
           | (Finite x, Infinity n) \<Rightarrow>
               if x = 0 then Inl InvalidOperation else Inr (Infinity (n \<noteq> (x < 0)))
           | (Infinity n, Infinity n') \<Rightarrow> Inr (Infinity (n \<noteq> n'))
           | _ \<Rightarrow> Inl InvalidOperation)"

definition dec_add :: "decimal \<Rightarrow> decimal \<Rightarrow> error + decimal" where
  \<comment> \<open>\<^verbatim>\<open>a + b\<close>: infinities of opposite sign raise\<close>
  "dec_add a b =
     (if a = sNaN \<or> b = sNaN then Inl InvalidOperation
      else if a = NaN \<or> b = NaN then Inr NaN
      else case (a, b) of
             (Finite x, Finite y) \<Rightarrow> Inr (Finite (x + y))
           | (Infinity n, Finite y) \<Rightarrow> Inr (Infinity n)
           | (Finite x, Infinity n) \<Rightarrow> Inr (Infinity n)
           | (Infinity n, Infinity n') \<Rightarrow>
               if n = n' then Inr (Infinity n) else Inl InvalidOperation
           | _ \<Rightarrow> Inl InvalidOperation)"

definition dec_neg :: "decimal \<Rightarrow> decimal" where
  "dec_neg a = (case a of Finite x \<Rightarrow> Finite (- x) | Infinity n \<Rightarrow> Infinity (\<not> n) | d \<Rightarrow> d)"

definition dec_sub :: "decimal \<Rightarrow> decimal \<Rightarrow> error + decimal" where
  \<comment> \<open>\<^verbatim>\<open>a - b\<close>\<close>
  "dec_sub a b = dec_add a (dec_neg b)"

section \<open>parsers.py: calculate_amount\<close>

definition calculate_amount ::
  "decimal option \<Rightarrow> decimal option \<Rightarrow> decimal option \<Rightarrow> string \<Rightarrow> error + decimal option" where
  "calculate_amount quantity price fees action =
     (case (quantity, price) of
        (Some q, Some p) \<Rightarrow>
          if action \<in> set [''buy'', ''sell''] then
            (case dec_mul q p of
               Inl e \<Rightarrow> Inl e
             | Inr amount \<Rightarrow>
                 (case fees of
                    None \<Rightarrow> Inr (Some amount)
                  | Some f \<Rightarrow>
                      (case (if action = ''buy'' then dec_add amount f else dec_sub amount f) of
                         Inl e \<Rightarrow> Inl e
                       | Inr a \<Rightarrow> Inr (Some a))))
          else Inr None
      | _ \<Rightarrow> Inr None)"

section \<open>csv_import.py: import_transactions_from_csv\<close>

text \<open>
  A CSV row, as \<^verbatim>\<open>csv.DictReader\<close> yields it, and the column mapping are dictionaries
  from strings to strings. The cells are strings: a row that is shorter or longer than the
  header (a \<^verbatim>\<open>None\<close> cell or key) makes the reading of the whole file fail and is not
  modelled. \<^verbatim>\<open>json.loads\<close> is the argument \<open>loads\<close> (\<open>None\<close> for a
  \<^verbatim>\<open>JSONDecodeError\<close>), and the mapping store is the argument \<open>mappings\<close>.
\<close>

type_synonym csv_row = "(string \<times> string) list"
type_synonym column_mappings = "(string \<times> string) list"

definition ebind :: "error + 'a \<Rightarrow> ('a \<Rightarrow> error + 'b) \<Rightarrow> error + 'b" where
  \<comment> \<open>sequencing: an exception of the first step ends the computation\<close>
  "ebind r f = (case r of Inl e \<Rightarrow> Inl e | Inr x \<Rightarrow> f x)"

definition mapped_cell :: "column_mappings \<Rightarrow> csv_row \<Rightarrow> string \<Rightarrow> string option" where
  \<comment> \<open>\<^verbatim>\<open>col = column_mappings.get(field); if col and col in row: ... row[col]\<close>\<close>
  "mapped_cell cm row field =
     (case map_of cm field of
        None \<Rightarrow> None
      | Some col \<Rightarrow> if col = [] then None else map_of row col)"

definition dec_of :: "pyval \<Rightarrow> decimal option" where
  \<comment> \<open>an \<^verbatim>\<open>Optional[Decimal]\<close> read from a dictionary\<close>
  "dec_of v = (case v of PDec d \<Rightarrow> Some d | _ \<Rightarrow> None)"

definition parse_json :: "(string \<Rightarrow> pyval option) \<Rightarrow> string \<Rightarrow> pyval" where
  "parse_json loads json_str =
     (if json_str = [] \<or> strip json_str = [] then PNone
      else case loads json_str of None \<Rightarrow> PNone | Some v \<Rightarrow> v)"

definition new_transaction :: "int \<Rightarrow> csv_row \<Rightarrow> pydict" where
  "new_transaction row_num row =
     [(''row_num'', PInt row_num), (''errors'', PList []), (''warnings'', PList []),
      (''original'', PDict (map (\<lambda>(k, v). (k, PStr v)) row))]"

definition date_step :: "column_mappings \<Rightarrow> csv_row \<Rightarrow> pydict \<Rightarrow> error + pydict" where
  "date_step cm row t =
     (case mapped_cell cm row ''date'' of
        Some cell \<Rightarrow>
          (case parse_date cell of
             Inl e \<Rightarrow> Inl e
           | Inr (Some d) \<Rightarrow> Inr (dset ''transaction_date'' (PDate d) t)
           | Inr None \<Rightarrow> Inr (append_error (''Invalid date format: '' @ cell) t))
      | None \<Rightarrow> Inr (append_error ''Date field is required but not mapped'' t))"

definition option_indicators :: "string list" where
  "option_indicators =
     [''call'', ''put'', ''option'', ''bto'', ''sto'', ''btc'', ''stc'', ''exercise'', ''assign'']"

definition extract_broker :: "column_mappings \<Rightarrow> csv_row \<Rightarrow> string option" where
  \<comment> \<open>\<^verbatim>\<open>account_name.split('(')[-1].split(')')[0]\<close> for an account name that holds both
      parentheses\<close>
  "extract_broker cm row =
     (case mapped_cell cm row ''account_name'' of
        None \<Rightarrow> None
      | Some cell \<Rightarrow>
          let account_name = strip cell in
          if account_name \<noteq> [] \<and> CHR ''('' \<in> set account_name \<and> CHR '')'' \<in> set account_name
          then Some (takeWhile (\<lambda>c. c \<noteq> CHR '')'')
                       (rev (takeWhile (\<lambda>c. c \<noteq> CHR ''('') (rev account_name))))
          else None)"

definition is_expired_action :: "string \<Rightarrow> bool" where
  \<comment> \<open>\<^verbatim>\<open>'expir' in action or 'worthless' in action\<close>\<close>
  "is_expired_action action = (contains ''expir'' action \<or> contains ''worthless'' action)"

definition action_step ::
  "mappings \<Rightarrow> column_mappings \<Rightarrow> csv_row \<Rightarrow> pydict \<Rightarrow> error + pydict" where
  "action_step mappings cm row t =
     (case mapped_cell cm row ''action'' of
        None \<Rightarrow> Inr (append_error ''Action field is required but not mapped'' t)
      | Some cell \<Rightarrow>
          let original_action = strip cell;
              action = lower original_action;
              is_option_transaction =
                (list_ex (\<lambda>indicator. contains indicator action) option_indicators
                 \<or> dget t ''instrument_type'' = PIType OPTION);
              t1 = (if is_option_transaction then dset ''instrument_type'' (PIType OPTION) t
                    else t);
              t2 = (if is_expired_action action
                    then dset ''amount'' (PDec (Finite 0)) (dset ''price'' (PDec (Finite 0)) t1)
                    else t1)
          in ebind
               (case mapped_cell cm row ''quantity'' of
                  Some qcell \<Rightarrow>
                    ebind (parse_decimal (ustr qcell)) (\<lambda>q. Inr (dset ''quantity'' (opt_val PDec q) t2))
                | None \<Rightarrow> Inr t2)
               (\<lambda>t3.
                  case standardize_option_transaction_type mappings action is_option_transaction
                         (dec_of (dget t3 ''quantity'')) (extract_broker cm row) of
                    Inr tt \<Rightarrow> Inr (dset ''transaction_type'' (PTType tt) t3)
                  | Inl e \<Rightarrow>
                      \<comment> \<open>\<^verbatim>\<open>except Exception\<close>\<close>
                      Inr (dset ''transaction_type_str'' (PStr original_action)
                             (append_error
                                (''Could not determine transaction type: '' @ original_action) t3))))"

definition symbol_step :: "column_mappings \<Rightarrow> csv_row \<Rightarrow> pydict \<Rightarrow> error + pydict" where
  "symbol_step cm row t =
     (let symbol = (case mapped_cell cm row ''symbol'' of
                      Some cell \<Rightarrow> upper (strip cell) | None \<Rightarrow> []);
          description = (case mapped_cell cm row ''notes'' of
                           Some cell \<Rightarrow> strip cell | None \<Rightarrow> []);
          t1 = dset ''symbol'' (PStr symbol) t
      in if symbol \<noteq> [] \<or> description \<noteq> [] then
           ebind (parse_option_details symbol (Some description))
             (\<lambda>od.
                if is_option od then
                  let t2 = dset ''instrument_type'' (PIType OPTION) t1;
                      t3 = dset ''symbol'' (PStr (ticker od)) t2;
                      t4 = dset ''option_type'' (opt_val POType (option_type od)) t3;
                      t5 = dset ''expiration_date'' (opt_val PDate (expiration_date od)) t4;
                      t6 = dset ''strike_price'' (opt_val PDec (strike_price od)) t5;
                      t7 = dset ''original_symbol'' (PStr symbol) t6
                  in Inr (if description \<noteq> [] then dset ''notes'' (PStr description) t7 else t7)
                else Inr t1)
         else Inr t1)"

definition symbol_warning_step :: "pydict \<Rightarrow> pydict" where
  "symbol_warning_step t =
     (if \<not> truthy (dget t ''symbol'') \<and> has_key t ''transaction_type''
         \<and> dget t ''transaction_type''
              \<notin> set [PTType DEPOSIT, PTType WITHDRAWAL, PTType FEE, PTType INTEREST]
      then append_warning ''Symbol is recommended for this transaction type but not mapped'' t
      else t)"

definition instrument_type_step :: "column_mappings \<Rightarrow> csv_row \<Rightarrow> pydict \<Rightarrow> pydict" where
  "instrument_type_step cm row t =
     (case mapped_cell cm row ''instrument_type'' of
        Some cell \<Rightarrow>
          let instr_type = strip (lower cell) in
          if instr_type \<noteq> [] then
            (case InstrumentType_of instr_type of
               Inr it \<Rightarrow> dset ''instrument_type'' (PIType it) t
             | Inl e \<Rightarrow>
                 dset ''instrument_type_str'' (PStr instr_type)
                   (append_error (''Invalid instrument type: '' @ instr_type) t))
          else t
      | None \<Rightarrow>
          if truthy (dget t ''symbol'')
          then append_warning
                 (''Instrument type not provided, defaulting to '' @ [CHR 0x27] @ ''stock''
                    @ [CHR 0x27])
                 (dset ''instrument_type'' (PIType STOCK) t)
          else t)"

definition account_step :: "column_mappings \<Rightarrow> csv_row \<Rightarrow> pydict \<Rightarrow> pydict" where
  "account_step cm row t =
     (case mapped_cell cm row ''account_name'' of
        Some cell \<Rightarrow>
          let t1 = dset ''account_name'' (PStr (strip cell)) t in
          if strip cell = [] then append_error ''Account name is empty'' t1 else t1
      | None \<Rightarrow> append_error ''Account name is required but not mapped'' t)"

definition quantity_step :: "column_mappings \<Rightarrow> csv_row \<Rightarrow> pydict \<Rightarrow> error + pydict" where
  \<comment> \<open>\<^verbatim>\<open>if 'quantity' not in transaction and column_mappings.get('quantity') in row\<close>\<close>
  "quantity_step cm row t =
     (if has_key t ''quantity'' then Inr t
      else case map_of cm ''quantity'' of
             None \<Rightarrow> Inr t
           | Some col \<Rightarrow>
               (case map_of row col of
                  None \<Rightarrow> Inr t
                | Some cell \<Rightarrow>
                    ebind (parse_decimal (ustr cell)) (\<lambda>q. Inr (dset ''quantity'' (opt_val PDec q) t))))"

definition price_step :: "column_mappings \<Rightarrow> csv_row \<Rightarrow> pydict \<Rightarrow> error + pydict" where
  "price_step cm row t =
     (case mapped_cell cm row ''price'' of
        Some cell \<Rightarrow> ebind (parse_decimal (ustr cell)) (\<lambda>p. Inr (dset ''price'' (opt_val PDec p) t))
      | None \<Rightarrow> Inr t)"

definition fees_step :: "column_mappings \<Rightarrow> csv_row \<Rightarrow> pydict \<Rightarrow> error + pydict" where
  "fees_step cm row t =
     (case mapped_cell cm row ''fees'' of
        Some cell \<Rightarrow>
          ebind (parse_decimal (ustr (if cell = [] then ''0'' else cell)))
            (\<lambda>f. Inr (dset ''fees'' (opt_val PDec f) t))
      | None \<Rightarrow> Inr (dset ''fees'' (PDec (Finite 0)) t))"

definition journal_step ::
  "(string \<Rightarrow> pyval option) \<Rightarrow> column_mappings \<Rightarrow> csv_row \<Rightarrow> pydict \<Rightarrow> pydict" where
  "journal_step loads cm row t =
     (case mapped_cell cm row ''journal_details'' of
        Some cell \<Rightarrow>
          if strip cell \<noteq> [] then
            (let journal_details = parse_json loads cell in
             if truthy journal_details then dset ''journal_details'' journal_details t
             else dset ''journal_details_str'' (PStr cell)
                    (append_error (''Invalid JSON in journal_details: '' @ cell) t))
          else t
      | None \<Rightarrow> t)"

definition notes_step :: "column_mappings \<Rightarrow> csv_row \<Rightarrow> pydict \<Rightarrow> pydict" where
  "notes_step cm row t =
     (case mapped_cell cm row ''notes'' of
        Some cell \<Rightarrow> dset ''notes'' (PStr (strip cell)) t
      | None \<Rightarrow> t)"

definition amount_step :: "column_mappings \<Rightarrow> csv_row \<Rightarrow> pydict \<Rightarrow> error + pydict" where
  \<comment> \<open>an explicit amount, when its mapped cell parses\<close>
  "amount_step cm row t =
     (case mapped_cell cm row ''amount'' of
        Some cell \<Rightarrow>
          ebind (parse_decimal (ustr cell))
            (\<lambda>explicit_amount.
               case explicit_amount of
                 Some v \<Rightarrow> Inr (dset ''amount'' (PDec v) t)
               | None \<Rightarrow> Inr t)
      | None \<Rightarrow> Inr t)"

definition calculate_step :: "pydict \<Rightarrow> error + pydict" where
  \<comment> \<open>\<^verbatim>\<open>if 'amount' not in transaction and 'transaction_type' in transaction\<close>\<close>
  "calculate_step t =
     (if \<not> has_key t ''amount'' \<and> has_key t ''transaction_type'' then
        (case dget t ''transaction_type'' of
           PTType tt \<Rightarrow>
             ebind (calculate_amount (dec_of (dget t ''quantity'')) (dec_of (dget t ''price''))
                      (dec_of (dget t ''fees'')) (tt_value tt))
               (\<lambda>calculated_amount.
                  case calculated_amount of
                    Some a \<Rightarrow> Inr (dset ''amount'' (PDec a) t)
                  | None \<Rightarrow> Inr t)
         | _ \<Rightarrow> Inl AttributeError)
      else Inr t)"

definition required_step :: "pydict \<Rightarrow> pydict" where
  \<comment> \<open>the required fields by transaction type, and the amount for every type\<close>
  "required_step t =
     (if has_key t ''transaction_type'' then
        let ttype = dget t ''transaction_type'';
            t1 = (if ttype \<in> set [PTType BUY, PTType SELL] then
                    (let a = (if dget t ''quantity'' = PNone
                              then append_error ''Quantity is required for buy/sell transactions'' t
                              else t)
                     in if dget a ''price'' = PNone
                        then append_error ''Price is required for buy/sell transactions'' a
                        else a)
                  else if ttype \<in> set [PTType DEPOSIT, PTType WITHDRAWAL, PTType FEE] then
                    (if dget t ''amount'' = PNone
                     then append_error ''Amount is required for cash transactions'' t else t)
                  else t)
        in if \<not> has_key t1 ''amount''
           then append_error ''Cannot determine transaction amount'' t1 else t1
      else t)"

definition import_row ::
  "(string \<Rightarrow> pyval option) \<Rightarrow> mappings \<Rightarrow> column_mappings \<Rightarrow> int \<Rightarrow> csv_row
     \<Rightarrow> error + pydict" where
  \<comment> \<open>the body of \<^verbatim>\<open>for row_num, row in enumerate(reader, start=2)\<close>\<close>
  "import_row loads mappings cm row_num row =
     ebind (date_step cm row (new_transaction row_num row)) (\<lambda>t1.
     ebind (action_step mappings cm row t1) (\<lambda>t2.
     ebind (symbol_step cm row t2) (\<lambda>t3.
     ebind (quantity_step cm row
              (account_step cm row (instrument_type_step cm row (symbol_warning_step t3)))) (\<lambda>t4.
     ebind (price_step cm row t4) (\<lambda>t5.
     ebind (fees_step cm row t5) (\<lambda>t6.
     ebind (amount_step cm row (notes_step cm row (journal_step loads cm row t6))) (\<lambda>t7.
     ebind (calculate_step t7) (\<lambda>t8.
     Inr (required_step t8)))))))))"

fun import_rows ::
  "(string \<Rightarrow> pyval option) \<Rightarrow> mappings \<Rightarrow> column_mappings \<Rightarrow> int \<Rightarrow> csv_row list
     \<Rightarrow> error + pydict list" where
  "import_rows loads mappings cm n [] = Inr []"
| "import_rows loads mappings cm n (row # rows) =
     ebind (import_row loads mappings cm n row) (\<lambda>t.
     ebind (import_rows loads mappings cm (n + 1) rows) (\<lambda>ts. Inr (t # ts)))"

definition import_transactions_from_csv ::
  "(string \<Rightarrow> pyval option) \<Rightarrow> mappings \<Rightarrow> string list \<Rightarrow> csv_row list \<Rightarrow> column_mappings
     \<Rightarrow> error + pydict list" where
  \<comment> \<open>the file already read into its header and rows; every mapped column must be a
      header, and any exception becomes the \<^verbatim>\<open>ValueError\<close> that aborts the import\<close>
  "import_transactions_from_csv loads mappings headers rows cm =
     (if \<exists>csv_col \<in> snd ` set cm. csv_col \<notin> set headers
      then Inl (ValueError ''Error parsing CSV'')
      else case import_rows loads mappings cm 2 rows of
             Inl e \<Rightarrow> Inl (ValueError ''Error parsing CSV'')
           | Inr ts \<Rightarrow> Inr ts)"

chapter \<open>Properties\<close>

section \<open>Transfer direction (C1)\<close>

lemma TransactionType_of_value: "TransactionType_of (tt_value t) = Inr t"
  by (cases t) (simp_all add: TransactionType_of_def all_transaction_types_def)

lemma TransactionType_of_Inr: "TransactionType_of v = Inr t \<Longrightarrow> v = tt_value t"
  by (auto simp: TransactionType_of_def split: option.splits dest: find_Some_iff[THEN iffD1])

declare tt_value.simps [simp del]

lemma TransactionType_of_error: "TransactionType_of v = Inl e \<Longrightarrow> e = ValueError v"
  by (auto simp: TransactionType_of_def split: option.splits)

lemma to_transaction_type_total: "\<exists>r. to_transaction_type v = Inr r"
  by (auto simp: to_transaction_type_def split: option.splits sum.splits error.splits
      dest: TransactionType_of_error)

lemma to_transaction_type_Some:
  "to_transaction_type r = Inr (Some t) \<longleftrightarrow> r = Some (tt_value t)"
  by (auto simp: to_transaction_type_def TransactionType_of_value
      split: option.splits sum.splits error.splits dest: TransactionType_of_Inr)

lemma tt_value_transfer:
  "tt_value t = tt_value TRANSFER_IN \<longleftrightarrow> t = TRANSFER_IN"
  "tt_value t = tt_value TRANSFER_OUT \<longleftrightarrow> t = TRANSFER_OUT"
  by (cases t; simp add: tt_value.simps)+

lemma adjust_transfer_known:
  assumes "is_transfer t" "dec_lt0 q = Inr neg"
  shows "adjust_transfer (Some (tt_value t)) (Some q) =
           Inr (Some (tt_value (if neg then TRANSFER_OUT else TRANSFER_IN)))"
  using assms by (auto simp: adjust_transfer_def is_transfer_def)

lemma adjust_transfer_transfer:
  assumes "adjust_transfer r (Some q) = Inr (Some (tt_value t))" "is_transfer t"
  shows "dec_lt0 q = Inr (t = TRANSFER_OUT)"
proof -
  from assms(2) have t: "t = TRANSFER_IN \<or> t = TRANSFER_OUT" by (simp add: is_transfer_def)
  show ?thesis
  proof (cases "r = Some (tt_value TRANSFER_IN) \<or> r = Some (tt_value TRANSFER_OUT)")
    case True
    then have "adjust_transfer r (Some q) =
        (case dec_lt0 q of Inl e \<Rightarrow> Inl e
         | Inr neg \<Rightarrow> Inr (Some (if neg then tt_value TRANSFER_OUT else tt_value TRANSFER_IN)))"
      by (simp only: adjust_transfer_def option.case if_True)
    with assms(1) t show ?thesis
      by (cases "dec_lt0 q") (auto simp: tt_value_transfer split: if_splits)
  next
    case False
    then have "adjust_transfer r (Some q) = Inr r"
      by (simp only: adjust_transfer_def option.case if_False)
    with assms(1) False t show ?thesis by auto
  qed
qed

lemma adjust_transfer_other:
  assumes "r \<noteq> Some (tt_value TRANSFER_IN)" "r \<noteq> Some (tt_value TRANSFER_OUT)"
  shows "adjust_transfer r q = Inr r"
  using assms by (cases q) (simp_all add: adjust_transfer_def)

lemma adjust_transfer_unknown: "adjust_transfer r None = Inr r"
  by (simp add: adjust_transfer_def)

lemma first_match_in: "first_match d a = Some v \<Longrightarrow> v \<in> snd ` set d"
  by (auto simp: first_match_def find_Some_iff image_iff) (metis nth_mem snd_conv)

lemma option_table_no_transfer:
  "first_match option_action_mapping a = Some v \<Longrightarrow> \<not> is_transfer v"
  by (drule first_match_in) (auto simp: option_action_mapping_def is_transfer_def)

lemma standard_fallback_transfer:
  "standard_fallback a (Some q) = Inr t \<Longrightarrow> is_transfer t \<Longrightarrow> dec_lt0 q = Inr (t = TRANSFER_OUT)"
  by (auto simp: standard_fallback_def is_transfer_def split: if_splits sum.splits)

lemma standard_fallback_known:
  assumes "standard_fallback a None = Inr t0" "is_transfer t0" "dec_lt0 q = Inr neg"
  shows "standard_fallback a (Some q) = Inr (if neg then TRANSFER_OUT else TRANSFER_IN)"
  using assms by (auto simp: standard_fallback_def is_transfer_def split: if_splits)

lemma get_transaction_type_unknown:
  "get_transaction_type m a b None = to_transaction_type (mapper_lookup m (lower a) b)"
  by (simp add: get_transaction_type_def adjust_transfer_unknown)

lemma get_transaction_type_known:
  assumes "get_transaction_type m a b None = Inr (Some t0)" "is_transfer t0" "dec_lt0 q = Inr neg"
  shows "get_transaction_type m a b (Some q) = Inr (Some (if neg then TRANSFER_OUT else TRANSFER_IN))"
proof -
  from assms(1) have "mapper_lookup m (lower a) b = Some (tt_value t0)"
    by (simp add: get_transaction_type_unknown to_transaction_type_Some)
  then have "adjust_transfer (mapper_lookup m (lower a) b) (Some q) =
      Inr (Some (tt_value (if neg then TRANSFER_OUT else TRANSFER_IN)))"
    using adjust_transfer_known[OF assms(2,3)] by simp
  then show ?thesis
    by (simp add: get_transaction_type_def to_transaction_type_Some)
qed

lemma get_transaction_type_transfer:
  assumes "get_transaction_type m a b (Some q) = Inr (Some t)" "is_transfer t"
  shows "dec_lt0 q = Inr (t = TRANSFER_OUT)"
proof -
  from assms(1) obtain r where
    r: "adjust_transfer (mapper_lookup m (lower a) b) (Some q) = Inr r"
    and t: "to_transaction_type r = Inr (Some t)"
    by (auto simp: get_transaction_type_def split: sum.splits)
  from t have "r = Some (tt_value t)" by (simp add: to_transaction_type_Some)
  with r assms(2) show ?thesis using adjust_transfer_transfer by blast
qed

lemma get_transaction_type_no_match:
  assumes "get_transaction_type m a b None = Inr None"
  shows "get_transaction_type m a b (Some q) = Inr None"
proof -
  let ?r = "mapper_lookup m (lower a) b"
  from assms have n: "to_transaction_type ?r = Inr None"
    by (simp add: get_transaction_type_unknown)
  have "?r \<noteq> Some (tt_value TRANSFER_IN)" "?r \<noteq> Some (tt_value TRANSFER_OUT)"
    using n to_transaction_type_Some[of ?r] by auto
  then have "adjust_transfer ?r (Some q) = Inr ?r" by (rule adjust_transfer_other)
  with n show ?thesis by (simp add: get_transaction_type_def)
qed

lemma get_transaction_type_unknown_total: "\<exists>r. get_transaction_type m a b None = Inr r"
  by (simp add: get_transaction_type_unknown to_transaction_type_total)

lemma standardize_known:
  assumes "standardize_option_transaction_type m s io None b = Inr t0" "is_transfer t0"
    and "dec_lt0 q = Inr neg"
  shows "standardize_option_transaction_type m s io (Some q) b =
           Inr (if neg then TRANSFER_OUT else TRANSFER_IN)"
proof -
  let ?a = "strip (lower s)"
  obtain r where r: "get_transaction_type m ?a b None = Inr r"
    using get_transaction_type_unknown_total by blast
  show ?thesis
  proof (cases r)
    case None
    with r have q: "get_transaction_type m ?a b (Some q) = Inr None"
      using get_transaction_type_no_match by simp
    show ?thesis
    proof (cases "first_match option_action_mapping ?a")
      case (Some v)
      with assms(1) r None have "t0 = v"
        by (simp add: standardize_option_transaction_type_def Let_def)
      with Some assms(2) show ?thesis using option_table_no_transfer by blast
    next
      case nm: None
      from assms(1,2) r None nm have "standard_fallback ?a None = Inr t0"
        by (auto simp: standardize_option_transaction_type_def Let_def is_transfer_def split: if_splits)
      then have "standard_fallback ?a (Some q) = Inr (if neg then TRANSFER_OUT else TRANSFER_IN)"
        using assms(2,3) by (rule standard_fallback_known)
      moreover from assms(1,2) r None nm
      have "\<not> (io \<and> (contains ''buy'' ?a \<or> contains ''purchase'' ?a))"
        "\<not> (io \<and> contains ''sell'' ?a)"
        by (auto simp: standardize_option_transaction_type_def Let_def is_transfer_def split: if_splits)
      ultimately show ?thesis using q nm
        by (simp add: standardize_option_transaction_type_def Let_def)
    qed
  next
    case (Some t)
    with assms(1) r have "t = t0"
      by (simp add: standardize_option_transaction_type_def Let_def)
    with Some r assms(2,3)
    have "get_transaction_type m ?a b (Some q) = Inr (Some (if neg then TRANSFER_OUT else TRANSFER_IN))"
      using get_transaction_type_known by simp
    then show ?thesis
      by (simp add: standardize_option_transaction_type_def Let_def)
  qed
qed

lemma standardize_transfer:
  assumes "standardize_option_transaction_type m s io (Some q) b = Inr t" "is_transfer t"
  shows "dec_lt0 q = Inr (t = TRANSFER_OUT)"
proof -
  let ?a = "strip (lower s)"
  from assms(1) obtain r where r: "get_transaction_type m ?a b (Some q) = Inr r"
    by (auto simp: standardize_option_transaction_type_def Let_def split: sum.splits)
  show ?thesis
  proof (cases r)
    case (Some t')
    with assms(1) r have "t' = t" by (simp add: standardize_option_transaction_type_def Let_def)
    with Some r assms(2) show ?thesis using get_transaction_type_transfer by blast
  next
    case None
    show ?thesis
    proof (cases "first_match option_action_mapping ?a")
      case (Some v)
      with assms(1) r None have "t = v"
        by (simp add: standardize_option_transaction_type_def Let_def)
      with Some assms(2) show ?thesis using option_table_no_transfer by blast
    next
      case nm: None
      from assms(1,2) r None nm have "standard_fallback ?a (Some q) = Inr t"
        by (auto simp: standardize_option_transaction_type_def Let_def is_transfer_def split: if_splits)
      then show ?thesis using assms(2) by (rule standard_fallback_transfer)
    qed
  qed
qed

lemma dec_ge0_lt0: "dec_ge0 q = Inr True \<longleftrightarrow> dec_lt0 q = Inr False"
  by (cases q) (auto simp: dec_ge0_def dec_lt0_def)


text \<open>
  Claim C1. Whenever an action resolves to a transfer type and the quantity is known, the
  direction is the sign of the quantity, for every content of the mapping store: an action
  that resolves to a transfer with the quantity unknown resolves to \<open>TRANSFER_OUT\<close> for a
  quantity below zero and to \<open>TRANSFER_IN\<close> for one that is at least zero, and every
  transfer that either function returns for a known quantity has the direction of that
  sign. This holds for \<^verbatim>\<open>get_transaction_type\<close> and for
  \<^verbatim>\<open>standardize_option_transaction_type\<close>.
\<close>

theorem transfer_direction_by_quantity_sign:
  "(get_transaction_type m a b None = Inr (Some t0) \<and> is_transfer t0 \<longrightarrow>
      (dec_lt0 q = Inr True \<longrightarrow> get_transaction_type m a b (Some q) = Inr (Some TRANSFER_OUT)) \<and>
      (dec_ge0 q = Inr True \<longrightarrow> get_transaction_type m a b (Some q) = Inr (Some TRANSFER_IN)))
   \<and> (standardize_option_transaction_type m s io None b = Inr t1 \<and> is_transfer t1 \<longrightarrow>
      (dec_lt0 q = Inr True \<longrightarrow>
         standardize_option_transaction_type m s io (Some q) b = Inr TRANSFER_OUT) \<and>
      (dec_ge0 q = Inr True \<longrightarrow>
         standardize_option_transaction_type m s io (Some q) b = Inr TRANSFER_IN))
   \<and> (get_transaction_type m a b (Some q) = Inr (Some t2) \<and> is_transfer t2 \<longrightarrow>
        (if t2 = TRANSFER_OUT then dec_lt0 q = Inr True else dec_ge0 q = Inr True))
   \<and> (standardize_option_transaction_type m s io (Some q) b = Inr t3 \<and> is_transfer t3 \<longrightarrow>
        (if t3 = TRANSFER_OUT then dec_lt0 q = Inr True else dec_ge0 q = Inr True))"
proof (intro conjI impI)
  assume "get_transaction_type m a b None = Inr (Some t0) \<and> is_transfer t0" "dec_lt0 q = Inr True"
  then show "get_transaction_type m a b (Some q) = Inr (Some TRANSFER_OUT)"
    using get_transaction_type_known[of m a b t0 q True] by simp
next
  assume "get_transaction_type m a b None = Inr (Some t0) \<and> is_transfer t0" "dec_ge0 q = Inr True"
  then show "get_transaction_type m a b (Some q) = Inr (Some TRANSFER_IN)"
    using get_transaction_type_known[of m a b t0 q False] by (simp add: dec_ge0_lt0)
next
  assume "standardize_option_transaction_type m s io None b = Inr t1 \<and> is_transfer t1"
    "dec_lt0 q = Inr True"
  then show "standardize_option_transaction_type m s io (Some q) b = Inr TRANSFER_OUT"
    using standardize_known[of m s io b t1 q True] by simp
next
  assume "standardize_option_transaction_type m s io None b = Inr t1 \<and> is_transfer t1"
    "dec_ge0 q = Inr True"
  then show "standardize_option_transaction_type m s io (Some q) b = Inr TRANSFER_IN"
    using standardize_known[of m s io b t1 q False] by (simp add: dec_ge0_lt0)
next
  assume "get_transaction_type m a b (Some q) = Inr (Some t2) \<and> is_transfer t2"
  then show "if t2 = TRANSFER_OUT then dec_lt0 q = Inr True else dec_ge0 q = Inr True"
    using get_transaction_type_transfer[of m a b q t2] by (simp add: dec_ge0_lt0)
next
  assume "standardize_option_transaction_type m s io (Some q) b = Inr t3 \<and> is_transfer t3"
  then show "if t3 = TRANSFER_OUT then dec_lt0 q = Inr True else dec_ge0 q = Inr True"
    using standardize_transfer[of m s io q b t3] by (simp add: dec_ge0_lt0)
qed

theorem transfer_direction_by_quantity_sign_witness:
  "standardize_option_transaction_type [(''general'', [(''journal'', ''transfer_out'')])]
      ''Journal Shares'' False None None = Inr TRANSFER_OUT
   \<and> standardize_option_transaction_type [(''general'', [(''journal'', ''transfer_out'')])]
      ''Journal Shares'' False (Some (Finite 5)) None = Inr TRANSFER_IN
   \<and> get_transaction_type [(''general'', [(''journal'', ''transfer_out'')])]
      ''journal shares'' None (Some (Finite 5)) = Inr (Some TRANSFER_IN)
   \<and> dec_ge0 (Finite 5) = Inr True"
proof -
  let ?M = "[(''general'', [(''journal'', ''transfer_out'')])]"
  have g: "get_transaction_type ?M ''journal shares'' None None = Inr (Some TRANSFER_OUT)"
    by code_simp
  have s: "standardize_option_transaction_type ?M ''Journal Shares'' False None None
             = Inr TRANSFER_OUT"
    by code_simp
  have t: "is_transfer TRANSFER_OUT" "is_transfer TRANSFER_IN"
    by (simp_all add: is_transfer_def)
  have q: "dec_ge0 (Finite 5) = Inr True"
    by (simp add: dec_ge0_def)
  have g5: "get_transaction_type ?M ''journal shares'' None (Some (Finite 5))
              = Inr (Some TRANSFER_IN)"
    by code_simp
  have s5: "standardize_option_transaction_type ?M ''Journal Shares'' False (Some (Finite 5)) None
              = Inr TRANSFER_IN"
    by code_simp
  from transfer_direction_by_quantity_sign
         [of ?M "''journal shares''" None TRANSFER_OUT "Finite 5" "''Journal Shares''" False
             TRANSFER_OUT TRANSFER_IN TRANSFER_IN]
       g s t q g5 s5
  show ?thesis by simp
qed

section \<open>The documented examples of the standardizer (C2)\<close>

text \<open>
  Claim C2 says that with the default store \<^verbatim>\<open>"Buy to Open"\<close> on an option gives
  \<open>BUY_TO_OPEN\<close>, as the function's docstring does. The general bucket of the default
  store is scanned first and its key \<^verbatim>\<open>buy\<close> is a substring of the action, so
  the function returns \<open>BUY\<close>; in the same way \<^verbatim>\<open>"Sell to Close"\<close> gives \<open>SELL\<close>.
  \<^verbatim>\<open>"STC"\<close> and \<^verbatim>\<open>"unknown garbage"\<close> give what the claim says. A quantity that
  is a NaN (the cell \<^verbatim>\<open>nan\<close> parses to one) raises in the comparison with zero.
\<close>

theorem standardize_default_store_examples:
  "standardize_option_transaction_type default_mappings ''Buy to Open'' True None None = Inr BUY
   \<and> standardize_option_transaction_type default_mappings ''Sell to Close'' True None None = Inr SELL
   \<and> standardize_option_transaction_type default_mappings ''STC'' True None None = Inr SELL_TO_CLOSE
   \<and> standardize_option_transaction_type default_mappings ''unknown garbage'' False None None
        = Inr OTHER
   \<and> parse_decimal (ustr ''nan'') = Inr (Some NaN)
   \<and> standardize_option_transaction_type default_mappings ''Journal'' False (Some NaN) None
        = Inl InvalidOperation"
  by code_simp

section \<open>parse_decimal (C10)\<close>

lemma Decimal_error: "Decimal s = Inl e \<Longrightarrow> e = InvalidOperation"
  by (auto simp: Decimal_def split: option.splits)

lemma remove_chr_set: "set (remove_chr c s) = set s - {c}"
  by (auto simp: remove_chr_def)

lemma trim_decompose:
  "s = takeWhile P s @ rev (dropWhile P (rev (dropWhile P s)))
         @ rev (takeWhile P (rev (dropWhile P s)))"
proof -
  let ?l = "dropWhile P s"
  have "?l = rev (takeWhile P (rev ?l) @ dropWhile P (rev ?l))"
    by (simp only: takeWhile_dropWhile_id rev_rev_ident)
  also have "\<dots> = rev (dropWhile P (rev ?l)) @ rev (takeWhile P (rev ?l))" by (rule rev_append)
  finally have "takeWhile P s @ ?l
      = takeWhile P s @ rev (dropWhile P (rev ?l)) @ rev (takeWhile P (rev ?l))"
    by simp
  then show ?thesis by (simp only: takeWhile_dropWhile_id)
qed

lemma trim_ends:
  assumes "t = rev (dropWhile P (rev (dropWhile P s)))" "t \<noteq> []"
  shows "\<not> P (hd t) \<and> \<not> P (last t)"
proof -
  let ?l = "dropWhile P s"
  let ?r = "dropWhile P (rev ?l)"
  from assms have r: "?r \<noteq> []" by simp
  have l: "?l \<noteq> []"
  proof
    assume "?l = []"
    then have "?r = []" by (simp only: rev.simps dropWhile.simps)
    with r show False by simp
  qed
  have "last t = hd ?r" using r assms by (simp add: last_rev)
  then have 1: "\<not> P (last t)" using r by (simp add: hd_dropWhile)
  have "?l = rev (takeWhile P (rev ?l) @ ?r)"
    by (simp only: takeWhile_dropWhile_id rev_rev_ident)
  also have "\<dots> = rev ?r @ rev (takeWhile P (rev ?l))" by (rule rev_append)
  finally have "?l = t @ rev (takeWhile P (rev ?l))"
    by (simp only: assms)
  then have "hd ?l = hd (t @ rev (takeWhile P (rev ?l)))" by (rule arg_cong)
  then have "hd t = hd ?l" using assms by simp
  moreover have "\<not> P (hd ?l)" using l by (simp add: hd_dropWhile)
  ultimately have 2: "\<not> P (hd t)" by simp
  from 1 2 show ?thesis by simp
qed

lemma ustrip_decompose:
  "\<exists>a b. s = a @ ustrip s @ b \<and> list_all Py_UNICODE_ISSPACE a \<and> list_all Py_UNICODE_ISSPACE b"
proof -
  let ?P = Py_UNICODE_ISSPACE
  have "s = takeWhile ?P s @ ustrip s @ rev (takeWhile ?P (rev (dropWhile ?P s)))"
    unfolding ustrip_def by (rule trim_decompose)
  moreover have "list_all ?P (takeWhile ?P s)"
    by (simp add: list_all_iff) (meson set_takeWhileD)
  moreover have "list_all ?P (rev (takeWhile ?P (rev (dropWhile ?P s))))"
    by (simp add: list_all_iff) (meson set_takeWhileD)
  ultimately show ?thesis by blast
qed

lemma ustrip_ends:
  "ustrip s = [] \<or> (\<not> Py_UNICODE_ISSPACE (hd (ustrip s)) \<and> \<not> Py_UNICODE_ISSPACE (last (ustrip s)))"
  using trim_ends[of "ustrip s" Py_UNICODE_ISSPACE s] by (auto simp: ustrip_def)

lemma ustrip_blank: "list_all Py_UNICODE_ISSPACE s \<Longrightarrow> ustrip s = []"
proof -
  assume "list_all Py_UNICODE_ISSPACE s"
  then have e: "dropWhile Py_UNICODE_ISSPACE s = []" by (simp add: list_all_iff)
  show ?thesis unfolding ustrip_def e by simp
qed

lemma trim_unique:
  assumes "s = a @ t @ b" "list_all P a" "list_all P b" "t = [] \<or> (\<not> P (hd t) \<and> \<not> P (last t))"
  shows "rev (dropWhile P (rev (dropWhile P s))) = t"
proof (cases "t = []")
  case True
  with assms have "list_all P s" by simp
  then have e: "dropWhile P s = []" by (simp add: list_all_iff)
  show ?thesis unfolding e True by simp
next
  case False
  with assms(4) have h: "\<not> P (hd t)" and l: "\<not> P (last t)" by auto
  from False obtain x xs where t: "t = x # xs" by (cases t) auto
  from False obtain ys y where t': "t = ys @ [y]" by (cases t rule: rev_cases) auto
  from h t have x: "\<not> P x" by simp
  from l t' have y: "\<not> P y" by simp
  have 1: "dropWhile P s = t @ b"
    using assms(1,2) x t by (simp add: list_all_iff dropWhile_append2)
  have "rev (t @ b) = rev b @ y # rev ys" using t' by simp
  moreover have "dropWhile P (rev b @ y # rev ys) = dropWhile P (y # rev ys)"
    by (rule dropWhile_append2) (use assms(3) in \<open>simp add: list_all_iff\<close>)
  ultimately have "dropWhile P (rev (t @ b)) = y # rev ys"
    using y by simp
  with 1 t' show ?thesis by simp
qed

lemma ustrip_unique:
  assumes "s = a @ t @ b" "list_all Py_UNICODE_ISSPACE a" "list_all Py_UNICODE_ISSPACE b"
    "t = [] \<or> (\<not> Py_UNICODE_ISSPACE (hd t) \<and> \<not> Py_UNICODE_ISSPACE (last t))"
  shows "ustrip s = t"
  unfolding ustrip_def using assms by (rule trim_unique)

lemma ustrip_keeps: "c \<in> set s \<Longrightarrow> \<not> Py_UNICODE_ISSPACE c \<Longrightarrow> c \<in> set (ustrip s)"
proof -
  assume c: "c \<in> set s" "\<not> Py_UNICODE_ISSPACE c"
  obtain a b where "s = a @ ustrip s @ b" "list_all Py_UNICODE_ISSPACE a" "list_all Py_UNICODE_ISSPACE b"
    using ustrip_decompose by blast
  then have "set s = set a \<union> set (ustrip s) \<union> set b" "\<forall>x\<in>set a. Py_UNICODE_ISSPACE x"
     "\<forall>x\<in>set b. Py_UNICODE_ISSPACE x"
    by (metis set_append Un_assoc, simp_all add: list_all_iff)
  with c show ?thesis by auto
qed


lemma digit_facts:
  assumes "is_digit c"
  shows "c \<noteq> CHR ''.''" "c \<noteq> CHR ''e''" "c \<noteq> CHR ''E''" "c \<noteq> CHR ''+''" "c \<noteq> CHR ''-''"
    "c \<noteq> CHR ''n''" "c \<noteq> CHR ''s''" "c \<noteq> CHR ''i''" "\<not> is_upper c"
  using assms by (auto simp: is_digit_def is_upper_def Let_def)

lemma numeral_chr_facts:
  assumes "is_digit c \<or> c = CHR ''.'' \<or> c = CHR ''+'' \<or> c = CHR ''-''"
  shows "0 < (of_char c :: int)" "(of_char c :: int) \<le> 127" "(of_char c :: int) \<noteq> 0x5F"
    "\<not> Py_UNICODE_ISSPACE (of_char c)"
  using assms by (auto simp: is_digit_def Py_UNICODE_ISSPACE_def Let_def)

lemma ascii_chars_ustr:
  "\<forall>c\<in>set s. is_digit c \<or> c = CHR ''.'' \<or> c = CHR ''+'' \<or> c = CHR ''-''
   \<Longrightarrow> ascii_chars (ustr s) = Some s"
proof (induction s)
  case Nil
  then show ?case by (simp add: ustr_def)
next
  case (Cons c s)
  then have c: "is_digit c \<or> c = CHR ''.'' \<or> c = CHR ''+'' \<or> c = CHR ''-''" by simp
  from Cons have "ascii_chars (ustr s) = Some s" by simp
  then show ?case using numeral_chr_facts[OF c] by (simp add: ustr_def)
qed

lemma numeric_as_ascii_ustr:
  assumes "\<forall>c\<in>set s. is_digit c \<or> c = CHR ''.'' \<or> c = CHR ''+'' \<or> c = CHR ''-''"
  shows "ustrip (ustr s) = ustr s" "numeric_as_ascii (ustr s) = s"
proof -
  have ns: "\<forall>x\<in>set (ustr s). \<not> Py_UNICODE_ISSPACE x"
    using assms numeral_chr_facts(4) by (auto simp: ustr_def)
  have "ustr s = [] \<or> (\<not> Py_UNICODE_ISSPACE (hd (ustr s)) \<and> \<not> Py_UNICODE_ISSPACE (last (ustr s)))"
    using ns by (cases "ustr s = []") auto
  then show 1: "ustrip (ustr s) = ustr s"
    using ustrip_unique[of "ustr s" "[]" "ustr s" "[]"] by simp
  show "numeric_as_ascii (ustr s) = s"
    using ascii_chars_ustr[OF assms] by (simp add: numeric_as_ascii_def 1)
qed

lemma count_digits_le: "count_digits ds \<le> max 1 (int (length ds))"
proof -
  have "length (dropWhile (\<lambda>c. c = CHR ''0'') ds) \<le> length ds" by (rule length_dropWhile_le)
  then show ?thesis by (simp add: count_digits_def)
qed

lemma parse_mantissa_plain:
  assumes "all_digits ip" "all_digits fp" "ip @ fp \<noteq> []" "pt = ''.'' \<or> (pt = [] \<and> fp = [])"
  shows "parse_mantissa (ip @ pt @ fp) = Some (ip, fp)"
proof -
  have ip: "\<forall>c\<in>set ip. c \<noteq> CHR ''.''"
    using assms(1) digit_facts(1) by (auto simp: all_digits_def list_all_iff)
  from assms(4) show ?thesis
  proof
    assume pt: "pt = ''.''"
    have "takeWhile (\<lambda>c. c \<noteq> CHR ''.'') (ip @ ''.'' @ fp) = ip"
      using ip by (simp add: takeWhile_append2)
    moreover have "dropWhile (\<lambda>c. c \<noteq> CHR ''.'') (ip @ ''.'' @ fp) = ''.'' @ fp"
      using ip by (simp add: dropWhile_append2)
    ultimately show ?thesis using assms(1,2,3) pt by (simp add: parse_mantissa_def Let_def)
  next
    assume pt: "pt = [] \<and> fp = []"
    have tw: "takeWhile (\<lambda>c. c \<noteq> CHR ''.'') ip = ip" using ip by simp
    have dw: "dropWhile (\<lambda>c. c \<noteq> CHR ''.'') ip = []" using ip by simp
    from pt have "ip @ pt @ fp = ip" by simp
    then show ?thesis unfolding parse_mantissa_def Let_def tw dw
      using assms(1,3) pt by (simp add: tw dw all_digits_def)
  qed
qed

lemma pow10_neg_length: "pow10 c (- int (length fp)) = Fract c (10 ^ length fp)"
  by (cases "fp = []") (simp_all add: pow10_def)

lemma parse_finite_plain:
  assumes "all_digits ip" "all_digits fp" "ip @ fp \<noteq> []" "pt = ''.'' \<or> (pt = [] \<and> fp = [])"
    "int (length (ip @ fp)) \<le> MPD_MAX_PREC"
  shows "parse_finite neg (ip @ pt @ fp)
         = Some (Finite (Fract (if neg then - digits_val (ip @ fp) else digits_val (ip @ fp))
                               (10 ^ length fp)))"
proof -
  let ?u = "ip @ pt @ fp"
  have ne: "\<forall>c\<in>set ?u. \<not> (c = CHR ''e'' \<or> c = CHR ''E'')"
    using assms(1,2,4) digit_facts(2,3) by (auto simp: all_digits_def list_all_iff)
  have t: "takeWhile (\<lambda>c. \<not> (c = CHR ''e'' \<or> c = CHR ''E'')) ?u = ?u"
    using ne by (simp only: takeWhile_eq_all_conv) 
  have d: "dropWhile (\<lambda>c. \<not> (c = CHR ''e'' \<or> c = CHR ''E'')) ?u = []"
    using ne by (simp only: dropWhile_eq_Nil_conv)
  have m: "parse_mantissa ?u = Some (ip, fp)"
    using assms(1-4) by (rule parse_mantissa_plain)
  have c: "count_digits (ip @ fp) \<le> MPD_MAX_PREC"
    using count_digits_le[of "ip @ fp"] assms(5) by (simp add: MPD_MAX_PREC_def)
  have b: "count_digits (ip @ fp) \<le> MPD_MAX_PREC \<and> int (length fp) \<le> MPD_MAX_PREC
        \<and> 0 - int (length fp) + count_digits (ip @ fp) - 1 \<le> MPD_MAX_EMAX
        \<and> MPD_MIN_ETINY \<le> 0 - int (length fp)"
    using c assms(5) by (simp add: MPD_MAX_PREC_def MPD_MAX_EMAX_def MPD_MIN_ETINY_def)
  show ?thesis
    unfolding parse_finite_def Let_def t d m using b
    by (simp add: pow10_neg_length del: of_nat_add length_append)
qed

lemma parse_unsigned_plain:
  assumes "all_digits ip" "all_digits fp" "ip @ fp \<noteq> []" "pt = ''.'' \<or> (pt = [] \<and> fp = [])"
    "int (length (ip @ fp)) \<le> MPD_MAX_PREC"
  shows "parse_unsigned neg (ip @ pt @ fp)
         = Some (Finite (Fract (if neg then - digits_val (ip @ fp) else digits_val (ip @ fp))
                               (10 ^ length fp)))"
    and "hd (ip @ pt @ fp) \<noteq> CHR ''-''" and "hd (ip @ pt @ fp) \<noteq> CHR ''+''" and "ip @ pt @ fp \<noteq> []"
proof -
  let ?u = "ip @ pt @ fp"
  from assms(3,4) show ne: "?u \<noteq> []" by auto
  then obtain x xs where u: "?u = x # xs" by (cases ?u) auto
  have "x \<in> set ?u" using u by simp
  then have x: "is_digit x \<or> x = CHR ''.''"
    using assms(1,2,4) by (auto simp: all_digits_def list_all_iff)
  then have xf: "x \<noteq> CHR ''n''" "x \<noteq> CHR ''s''" "x \<noteq> CHR ''i''" "\<not> is_upper x"
      "x \<noteq> CHR ''-''" "x \<noteq> CHR ''+''"
    using digit_facts[of x] by (auto simp: is_upper_def)
  from xf u show "hd ?u \<noteq> CHR ''-''" "hd ?u \<noteq> CHR ''+''" by simp_all
  have l: "lower ?u = x # lower xs" unfolding u using xf by (simp add: lower_def lower_chr_def)
  have "take 3 (lower ?u) \<noteq> ''nan''" "take 4 (lower ?u) \<noteq> ''snan''" "take 3 (lower ?u) \<noteq> ''inf''"
    unfolding l using xf by (simp_all add: take_Cons')
  then show "parse_unsigned neg ?u
         = Some (Finite (Fract (if neg then - digits_val (ip @ fp) else digits_val (ip @ fp))
                               (10 ^ length fp)))"
    unfolding parse_unsigned_def Let_def using parse_finite_plain[OF assms, of neg] by simp
qed

lemma Decimal_plain:
  assumes "all_digits ip" "all_digits fp" "ip @ fp \<noteq> []" "pt = ''.'' \<or> (pt = [] \<and> fp = [])"
    "int (length (ip @ fp)) \<le> MPD_MAX_PREC" "sg = [] \<or> sg = ''+'' \<or> sg = ''-''"
  shows "Decimal (ustr (sg @ ip @ pt @ fp))
         = Inr (Finite (Fract (if sg = ''-'' then - digits_val (ip @ fp) else digits_val (ip @ fp))
                              (10 ^ length fp)))"
proof -
  let ?u = "ip @ pt @ fp"
  note pu = parse_unsigned_plain[OF assms(1-5)]
  have chars: "\<forall>c\<in>set (sg @ ?u). is_digit c \<or> c = CHR ''.'' \<or> c = CHR ''+'' \<or> c = CHR ''-''"
    using assms(1,2,4,6) by (auto simp: all_digits_def list_all_iff)
  have a: "numeric_as_ascii (ustr (sg @ ?u)) = sg @ ?u"
    using chars by (rule numeric_as_ascii_ustr(2))
  obtain x xs where u: "?u = x # xs" using pu(4) by (cases ?u) auto
  with pu(2,3) have x: "x \<noteq> CHR ''-''" "x \<noteq> CHR ''+''" by simp_all
  have "mpd_qset_string (sg @ ?u) = parse_unsigned (sg = ''-'') ?u"
    using assms(6) x by (auto simp: mpd_qset_string_def u)
  then show ?thesis
    unfolding Decimal_def a using pu(1)[of "sg = ''-''"] by simp
qed

lemma removed_filter:
  "remove_chr 0x2C (remove_chr 0x20AC (remove_chr 0x24 s))
   = filter (\<lambda>c. c \<notin> {0x24, 0x20AC, 0x2C}) (s :: ustring)"
  by (induction s) (auto simp: remove_chr_def)

lemma ascii_chars_unknown:
  assumes "ch \<in> set u" "ch \<le> 0 \<or> 127 < ch" "\<not> Py_UNICODE_ISSPACE ch" "Py_UNICODE_TODECIMAL ch < 0"
  shows "ascii_chars u = None"
  using assms by (induction u) auto

lemma parse_decimal_cleaned:
  "parse_decimal s =
     (case Decimal (ustrip (filter (\<lambda>c. c \<notin> {0x24, 0x20AC, 0x2C}) s)) of
        Inr d \<Rightarrow> Inr (Some d) | Inl e \<Rightarrow> Inr None)"
proof (cases "s = [] \<or> ustrip s = []")
  case True
  obtain a b where "s = a @ ustrip s @ b" "list_all Py_UNICODE_ISSPACE a"
      "list_all Py_UNICODE_ISSPACE b"
    using ustrip_decompose by blast
  with True have b: "list_all Py_UNICODE_ISSPACE s"
    by (cases "s = []") (simp, metis append_Nil list_all_append)
  then have "filter (\<lambda>c. c \<notin> {0x24, 0x20AC, 0x2C}) s = s"
    by (auto simp: list_all_iff Py_UNICODE_ISSPACE_def filter_id_conv)
  moreover have "ustrip s = []" using b by (rule ustrip_blank)
  moreover have "Decimal [] = Inl InvalidOperation" by code_simp
  ultimately show ?thesis using True by (simp add: parse_decimal_def)
next
  case False
  then show ?thesis
    by (auto simp: parse_decimal_def removed_filter split: sum.splits error.splits dest: Decimal_error)
qed


text \<open>
  Claim C10. \<^verbatim>\<open>parse_decimal\<close> never raises. It returns \<^verbatim>\<open>None\<close> for an empty or
  whitespace-only string. The text without its dollar signs, euro signs and commas is
  whitespace, the cleaned text, whitespace, where the cleaned text neither starts nor ends
  with whitespace, and the result is the Decimal that the constructor reads from the cleaned
  text, or \<^verbatim>\<open>None\<close> when the constructor rejects it. When the cleaned text is a plain
  numeral, an optional sign and digits with an optional point, the result is exactly the
  number it denotes; when the text holds a character that is neither ASCII, nor the euro
  sign, nor whitespace, nor a decimal digit, the result is \<^verbatim>\<open>None\<close>.
\<close>

theorem parse_decimal_total:
  "(\<exists>r. parse_decimal s = Inr r)
   \<and> (s = [] \<or> list_all Py_UNICODE_ISSPACE s \<longrightarrow> parse_decimal s = Inr None)
   \<and> (\<exists>l cleaned r.
         filter (\<lambda>c. c \<notin> {0x24, 0x20AC, 0x2C}) s = l @ cleaned @ r
         \<and> list_all Py_UNICODE_ISSPACE l \<and> list_all Py_UNICODE_ISSPACE r
         \<and> (cleaned = [] \<or> (\<not> Py_UNICODE_ISSPACE (hd cleaned)
                               \<and> \<not> Py_UNICODE_ISSPACE (last cleaned)))
         \<and> parse_decimal s = (case Decimal cleaned of
                                 Inr d \<Rightarrow> Inr (Some d) | Inl e \<Rightarrow> Inr None))
   \<and> ((sg = [] \<or> sg = ''+'' \<or> sg = ''-'') \<and> (pt = ''.'' \<or> (pt = [] \<and> fp = []))
        \<and> all_digits ip \<and> all_digits fp \<and> ip @ fp \<noteq> []
        \<and> int (length (ip @ fp)) \<le> MPD_MAX_PREC
        \<and> list_all Py_UNICODE_ISSPACE a \<and> list_all Py_UNICODE_ISSPACE b
        \<and> filter (\<lambda>c. c \<notin> {0x24, 0x20AC, 0x2C}) s = a @ ustr (sg @ ip @ pt @ fp) @ b
       \<longrightarrow> parse_decimal s
             = Inr (Some (Finite (Fract (if sg = ''-'' then - digits_val (ip @ fp)
                                         else digits_val (ip @ fp))
                                        (10 ^ length fp)))))
   \<and> ((\<exists>ch\<in>set s. (ch \<le> 0 \<or> 127 < ch) \<and> ch \<noteq> 0x20AC \<and> \<not> Py_UNICODE_ISSPACE ch
                    \<and> Py_UNICODE_TODECIMAL ch < 0)
       \<longrightarrow> parse_decimal s = Inr None)"
proof (intro conjI impI)
  let ?f = "filter (\<lambda>c. c \<notin> {0x24, 0x20AC, 0x2C}) s"
  note pc = parse_decimal_cleaned[of s]
  show "\<exists>r. parse_decimal s = Inr r"
    unfolding pc by (cases "Decimal (ustrip ?f)") simp_all
  show "\<exists>l cleaned r. ?f = l @ cleaned @ r
         \<and> list_all Py_UNICODE_ISSPACE l \<and> list_all Py_UNICODE_ISSPACE r
         \<and> (cleaned = [] \<or> (\<not> Py_UNICODE_ISSPACE (hd cleaned)
                               \<and> \<not> Py_UNICODE_ISSPACE (last cleaned)))
         \<and> parse_decimal s = (case Decimal cleaned of
                                 Inr d \<Rightarrow> Inr (Some d) | Inl e \<Rightarrow> Inr None)"
    using ustrip_decompose[of ?f] ustrip_ends[of ?f] pc by blast
next
  assume "s = [] \<or> list_all Py_UNICODE_ISSPACE s"
  then have "list_all Py_UNICODE_ISSPACE s" by auto
  then have "ustrip s = []" by (rule ustrip_blank)
  then show "parse_decimal s = Inr None" by (simp add: parse_decimal_def)
next
  let ?f = "filter (\<lambda>c. c \<notin> {0x24, 0x20AC, 0x2C}) s"
  let ?t = "sg @ ip @ pt @ fp"
  assume h: "(sg = [] \<or> sg = ''+'' \<or> sg = ''-'') \<and> (pt = ''.'' \<or> (pt = [] \<and> fp = []))
        \<and> all_digits ip \<and> all_digits fp \<and> ip @ fp \<noteq> []
        \<and> int (length (ip @ fp)) \<le> MPD_MAX_PREC
        \<and> list_all Py_UNICODE_ISSPACE a \<and> list_all Py_UNICODE_ISSPACE b
        \<and> ?f = a @ ustr ?t @ b"
  have chars: "\<forall>c\<in>set ?t. is_digit c \<or> c = CHR ''.'' \<or> c = CHR ''+'' \<or> c = CHR ''-''"
    using h by (auto simp: all_digits_def list_all_iff)
  have "ustrip (ustr ?t) = ustr ?t" using chars by (rule numeric_as_ascii_ustr(1))
  then have "ustr ?t = [] \<or> (\<not> Py_UNICODE_ISSPACE (hd (ustr ?t))
                               \<and> \<not> Py_UNICODE_ISSPACE (last (ustr ?t)))"
    using ustrip_ends[of "ustr ?t"] by simp
  with h have c: "ustrip ?f = ustr ?t"
    using ustrip_unique[of ?f a "ustr ?t" b] by blast
  have "Decimal (ustr ?t)
         = Inr (Finite (Fract (if sg = ''-'' then - digits_val (ip @ fp) else digits_val (ip @ fp))
                              (10 ^ length fp)))"
    using h by (intro Decimal_plain) blast+
  then show "parse_decimal s
             = Inr (Some (Finite (Fract (if sg = ''-'' then - digits_val (ip @ fp)
                                         else digits_val (ip @ fp))
                                        (10 ^ length fp))))"
    unfolding parse_decimal_cleaned[of s] c by simp
next
  let ?f = "filter (\<lambda>c. c \<notin> {0x24, 0x20AC, 0x2C}) s"
  assume "\<exists>ch\<in>set s. (ch \<le> 0 \<or> 127 < ch) \<and> ch \<noteq> 0x20AC \<and> \<not> Py_UNICODE_ISSPACE ch
                    \<and> Py_UNICODE_TODECIMAL ch < 0"
  then obtain ch where ch: "ch \<in> set s" "ch \<le> 0 \<or> 127 < ch" "ch \<noteq> 0x20AC"
      "\<not> Py_UNICODE_ISSPACE ch" "Py_UNICODE_TODECIMAL ch < 0"
    by blast
  then have "ch \<in> set ?f" by auto
  then have "ch \<in> set (ustrip ?f)" using ch(4) by (rule ustrip_keeps)
  then have "ascii_chars (ustrip ?f) = None"
    using ch(2,4,5) by (rule ascii_chars_unknown)
  moreover have "ustrip (ustrip ?f) = ustrip ?f"
    using ustrip_unique[of "ustrip ?f" "[]" "ustrip ?f" "[]"] ustrip_ends[of ?f] by simp
  ultimately have "numeric_as_ascii (ustrip ?f) = []" by (simp add: numeric_as_ascii_def)
  then have "Decimal (ustrip ?f) = Inl InvalidOperation"
    by (simp add: Decimal_def mpd_qset_string_def)
  then show "parse_decimal s = Inr None"
    unfolding parse_decimal_cleaned[of s] by simp
qed

theorem parse_decimal_total_witness:
  "parse_decimal (0x20AC # ustr ''1,234.50'' @ [0xA0]) = Inr (Some (Finite (Fract 2469 2)))
   \<and> parse_decimal (ustr ''  -$5,000'') = Inr (Some (Finite (- 5000)))
   \<and> parse_decimal [0x3000, 0x20] = Inr None
   \<and> parse_decimal (0xA3 # ustr ''5'') = Inr None
   \<and> parse_decimal (ustr ''12abc'') = Inr None
   \<and> parse_decimal (ustr ''1e1000000000000000000'') = Inr None
   \<and> parse_decimal [0x20AC, 0x663, 0x2E, 0xFF15] = Inr (Some (Finite (Fract 7 2)))"
proof -
  have 1: "filter (\<lambda>c. c \<notin> {0x24, 0x20AC, 0x2C}) (0x20AC # ustr ''1,234.50'' @ [0xA0])
           = [] @ ustr ([] @ ''1234'' @ ''.'' @ ''50'') @ [0xA0]"
    "all_digits ''1234''" "all_digits ''50''" "int (length (''1234'' @ ''50'')) \<le> MPD_MAX_PREC"
    "list_all Py_UNICODE_ISSPACE [0xA0]" "digits_val (''1234'' @ ''50'') = 123450"
    by code_simp+
  have 2: "filter (\<lambda>c. c \<notin> {0x24, 0x20AC, 0x2C}) (ustr ''  -$5,000'')
           = ustr ''  '' @ ustr (''-'' @ ''5000'' @ [] @ []) @ []"
    "all_digits ''5000''" "all_digits []" "int (length (''5000'' @ [])) \<le> MPD_MAX_PREC"
    "list_all Py_UNICODE_ISSPACE (ustr ''  '')" "digits_val (''5000'' @ []) = 5000"
    by code_simp+
  have 3: "list_all Py_UNICODE_ISSPACE [0x3000, 0x20]" by code_simp
  have 4: "\<exists>ch\<in>set (0xA3 # ustr ''5''). (ch \<le> 0 \<or> 127 < ch) \<and> ch \<noteq> 0x20AC
             \<and> \<not> Py_UNICODE_ISSPACE ch \<and> Py_UNICODE_TODECIMAL ch < 0"
    by code_simp
  have 5: "parse_decimal (ustr ''12abc'') = Inr None"
    "parse_decimal (ustr ''1e1000000000000000000'') = Inr None"
    "parse_decimal [0x20AC, 0x663, 0x2E, 0xFF15] = Inr (Some (Finite (Fract 7 2)))"
    by code_simp+
  have 6: "Fract 123450 (10 ^ 2) = Fract 2469 2" "Fract (- 5000) 1 = - 5000"
    by (simp_all add: eq_rat Fract_of_int_eq)
  from parse_decimal_total[of "0x20AC # ustr ''1,234.50'' @ [0xA0]" "[]" "''.''" "''50''" "''1234''"
      "[]" "[0xA0]"] 1 6
  have a: "parse_decimal (0x20AC # ustr ''1,234.50'' @ [0xA0]) = Inr (Some (Finite (Fract 2469 2)))"
    by simp
  from parse_decimal_total[of "ustr ''  -$5,000''" "''-''" "[]" "[]" "''5000''" "ustr ''  ''" "[]"] 2 6
  have b: "parse_decimal (ustr ''  -$5,000'') = Inr (Some (Finite (- 5000)))"
    by simp
  from parse_decimal_total[of "[0x3000, 0x20]"] 3
  have c: "parse_decimal [0x3000, 0x20] = Inr None" by simp
  from parse_decimal_total[of "0xA3 # ustr ''5''"] 4
  have d: "parse_decimal (0xA3 # ustr ''5'') = Inr None" by blast
  from a b c d 5 show ?thesis by simp
qed

section \<open>parse_date (C5)\<close>

lemma is_digit_digit_chr: "is_digit (digit_chr k)"
  by (simp add: digit_chr_def is_digit_def)

lemma not_space_digit_chr: "\<not> is_space (digit_chr k)"
  by (simp add: digit_chr_def is_space_def)

lemma of_char_digit_chr: "0 \<le> k \<Longrightarrow> k \<le> 9 \<Longrightarrow> (of_char (digit_chr k) :: int) = 48 + k"
  by (simp add: digit_chr_def) presburger

lemma strptime_error: "strptime s fmt = Inl e \<Longrightarrow> \<exists>m. e = ValueError m"
  by (auto simp: strptime_def make_date_def split: option.splits if_splits prod.splits)

lemma try_formats_total: "\<exists>r. try_formats fs s = Inr r"
  by (induction fs) (auto split: sum.splits error.splits dest: strptime_error)

lemma parse_date_total: "\<exists>r. parse_date s = Inr r"
proof -
  obtain r where "try_formats formats (case re_search as_of_pattern s of
                        Some caps \<Rightarrow> group1 caps
                      | None \<Rightarrow> s) = Inr r"
    using try_formats_total by blast
  then show ?thesis
    by (auto simp: parse_date_def Let_def split: option.splits sum.splits)
qed


lemma rmatch_Many:
  assumes "(rest, caps') \<in> set (rmatch (Many p m n) s caps)"
  shows "\<exists>i. i \<le> length (takeWhile p s) \<and> m \<le> i \<and> rest = drop i s \<and> caps' = caps"
proof -
  define k where "k = length (takeWhile p s)"
  define hi where "hi = (case n of None \<Rightarrow> k | Some n' \<Rightarrow> min n' k)"
  have hi: "hi \<le> k" by (simp add: hi_def split: option.splits)
  have "rmatch (Many p m n) s caps = map (\<lambda>i. (drop i s, caps)) (rev [m..<Suc hi])"
    unfolding k_def hi_def by (simp only: rmatch.simps Let_def)
  with assms have "(rest, caps') \<in> set (map (\<lambda>i. (drop i s, caps)) (rev [m..<Suc hi]))"
    by (simp only:)
  then have "(rest, caps') \<in> (\<lambda>i. (drop i s, caps)) ` {m..<Suc hi}"
    by (simp only: set_map set_rev set_upt)
  then obtain i where "i \<in> {m..<Suc hi}" "(rest, caps') = (drop i s, caps)" by blast
  then have "m \<le> i" "i \<le> hi" "rest = drop i s" "caps' = caps" by auto
  with hi show ?thesis unfolding k_def by (intro exI[of _ i]) simp
qed

lemma take_takeWhile_prefix:
  assumes i: "i \<le> length (takeWhile p s)"
  shows "set (take i s) \<subseteq> {c. p c}"
proof -
  have "take i (takeWhile p s) = take i s"
    using i by (metis takeWhile_eq_take take_take min.absorb1)
  then have "set (take i s) \<subseteq> set (takeWhile p s)" by (metis set_take_subset)
  then show ?thesis by (auto dest: set_takeWhileD)
qed

lemma rmatch_alphabet:
  assumes "re_alphabet Q r" "(rest, caps') \<in> set (rmatch r s caps)"
  shows "\<exists>pre new. s = pre @ rest \<and> list_all Q pre \<and> caps' = caps @ new
           \<and> (\<forall>g \<in> set new. list_all Q g)"
  using assms
proof (induction r arbitrary: s caps rest caps')
  case (Chr p)
  then show ?case
    by (cases s) (auto split: if_splits intro!: exI[of _ "[hd s]"])
next
  case (Lit l)
  then show ?case
    by (auto split: if_splits simp: prefix_def intro!: exI[of _ l])
next
  case (LitI l)
  from LitI.prems(2) have len: "length l \<le> length s" and low: "lower (take (length l) s) = lower l"
    and rest: "rest = drop (length l) s" and caps: "caps' = caps"
    by (auto split: if_splits)
  have "list_all Q (take (length l) s)"
    unfolding list_all_iff
  proof
    fix c assume c: "c \<in> set (take (length l) s)"
    have "lower_chr ` set (take (length l) s) = lower_chr ` set l"
      using low unfolding lower_def by (metis set_map)
    with c have "lower_chr c \<in> lower_chr ` set l" by blast
    with LitI.prems(1) show "Q c" by simp
  qed
  with rest caps show ?case
    by (intro exI[of _ "take (length l) s"] exI[of _ "[]"]) simp
next
  case (Seq a b)
  from Seq.prems(2) obtain r1 c1 where 1: "(r1, c1) \<in> set (rmatch a s caps)"
    and 2: "(rest, caps') \<in> set (rmatch b r1 c1)"
    by auto
  from Seq.IH(1)[OF _ 1] Seq.prems(1) obtain p1 n1 where
    a: "s = p1 @ r1" "list_all Q p1" "c1 = caps @ n1" "\<forall>g \<in> set n1. list_all Q g"
    by auto
  from Seq.IH(2)[OF _ 2] Seq.prems(1) obtain p2 n2 where
    b: "r1 = p2 @ rest" "list_all Q p2" "caps' = c1 @ n2" "\<forall>g \<in> set n2. list_all Q g"
    by auto
  from a b show ?case
    by (intro exI[of _ "p1 @ p2"] exI[of _ "n1 @ n2"]) auto
next
  case (Alt a b)
  then show ?case by auto
next
  case (Opt a)
  then show ?case by (auto intro: exI[of _ "[]"])
next
  case (Many p m n)
  from rmatch_Many[OF Many.prems(2)] obtain i where i: "i \<le> length (takeWhile p s)"
    and rest: "rest = drop i s" and caps: "caps' = caps"
    by blast
  have "list_all Q (take i s)"
    using Many.prems(1) take_takeWhile_prefix[OF i] by (auto simp: list_all_iff)
  with rest caps show ?case
    by (intro exI[of _ "take i s"] exI[of _ "[]"]) simp
next
  case (Grp a)
  from Grp.prems(2) obtain c1 where 1: "(rest, c1) \<in> set (rmatch a s caps)"
    and c: "caps' = c1 @ [take (length s - length rest) s]"
    by auto
  from Grp.IH[OF _ 1] Grp.prems(1) obtain p1 n1 where
    a: "s = p1 @ rest" "list_all Q p1" "c1 = caps @ n1" "\<forall>g \<in> set n1. list_all Q g"
    by auto
  from a have "take (length s - length rest) s = p1" by simp
  with a c show ?case
    by (intro exI[of _ p1] exI[of _ "n1 @ [p1]"]) auto
next
  case Eol
  then show ?case by (auto split: if_splits intro: exI[of _ "[]"])
qed


lemma re_search_Some:
  "re_search r s = Some caps \<Longrightarrow>
     \<exists>suf rest. suffix suf s \<and> (rest, caps) \<in> set (rmatch r suf [])"
proof (induction s)
  case Nil
  then obtain x xs where x: "rmatch r [] [] = x # xs" "snd x = caps"
    by (auto split: list.splits)
  then have "(fst x, caps) \<in> set (rmatch r [] [])" by (metis list.set_intros(1) prod.collapse)
  then show ?case by (intro exI[of _ "[]"] exI[of _ "fst x"]) simp
next
  case (Cons c cs)
  show ?case
  proof (cases "rmatch r (c # cs) []")
    case Nil
    with Cons.prems have "re_search r cs = Some caps" by simp
    from Cons.IH[OF this] obtain suf rest where "suffix suf cs" "(rest, caps) \<in> set (rmatch r suf [])"
      by blast
    then show ?thesis by (auto intro: suffix_ConsI)
  next
    case (Cons x xs)
    with Cons.prems have "x = (fst x, caps)" by (cases x) simp
    with Cons have "(fst x, caps) \<in> set (rmatch r (c # cs) [])" by (metis list.set_intros(1))
    then show ?thesis by (intro exI[of _ "c # cs"] exI[of _ "fst x"]) simp
  qed
qed

lemma date_chr_not_a: "date_chr c \<Longrightarrow> lower_chr c \<noteq> CHR ''a''"
  by (auto simp: date_chr_def is_digit_def lower_chr_def is_upper_def Let_def)

lemma rmatch_LitI_first:
  assumes "rmatch (LitI (x # l)) s caps \<noteq> []"
  shows "s \<noteq> [] \<and> lower_chr (hd s) = lower_chr x"
proof (cases s)
  case Nil
  with assms show ?thesis by simp
next
  case (Cons c cs)
  with assms show ?thesis by (auto simp: lower_def split: if_splits)
qed

lemma re_search_as_of_None:
  assumes "list_all date_chr s"
  shows "re_search as_of_pattern s = None"
  using assms
proof (induction s)
  case Nil
  then show ?case by (simp add: as_of_pattern_def)
next
  case (Cons c cs)
  have "rmatch (LitI ''as of '') (c # cs) [] = []"
  proof (rule ccontr)
    assume "rmatch (LitI ''as of '') (c # cs) [] \<noteq> []"
    from rmatch_LitI_first[OF this] have "lower_chr c = lower_chr (CHR ''a'')" by simp
    moreover have "lower_chr (CHR ''a'') = CHR ''a''" by (simp add: lower_chr_def is_upper_def)
    ultimately show False using Cons.prems date_chr_not_a by auto
  qed
  then have "rmatch as_of_pattern (c # cs) [] = []"
    by (simp only: as_of_pattern_def rmatch.simps list.map concat.simps)
  with Cons show ?case by simp
qed

lemma rmatch_Seq:
  "(rest, caps) \<in> set (rmatch (Seq a b) s c0) \<Longrightarrow>
     \<exists>r1 c1. (r1, c1) \<in> set (rmatch a s c0) \<and> (rest, caps) \<in> set (rmatch b r1 c1)"
  by auto

lemma rmatch_LitI_caps: "(r1, c1) \<in> set (rmatch (LitI l) s c0) \<Longrightarrow> c1 = c0"
  by (auto split: if_splits)

lemma re_alphabet_date_pattern: "re_alphabet date_chr date_pattern"
  by (simp add: date_pattern_def slash_date_re_def dash_date_re_def digits_between_def date_chr_def)

lemma as_of_group_chars:
  assumes "re_search as_of_pattern s = Some caps"
  shows "list_all date_chr (group1 caps)"
proof -
  from re_search_Some[OF assms] obtain suf rest where
    m: "(rest, caps) \<in> set (rmatch as_of_pattern suf [])" by blast
  then have "(rest, caps) \<in> set (rmatch (Seq (LitI ''as of '') date_pattern) suf [])"
    by (simp only: as_of_pattern_def)
  from rmatch_Seq[OF this] obtain r1 c1 where
    1: "(r1, c1) \<in> set (rmatch (LitI ''as of '') suf [])"
    and 2: "(rest, caps) \<in> set (rmatch date_pattern r1 c1)"
    by blast
  from 1 have "c1 = []" by (rule rmatch_LitI_caps)
  with rmatch_alphabet[OF re_alphabet_date_pattern 2] obtain new where
    "caps = new" "\<forall>g \<in> set new. list_all date_chr g" by auto
  then show ?thesis by (cases caps) (auto simp: group1_def)
qed

lemma parse_date_as_of:
  assumes "re_search as_of_pattern s = Some caps"
  shows "parse_date s = parse_date (group1 caps)"
proof -
  have "re_search as_of_pattern (group1 caps) = None"
    using as_of_group_chars[OF assms] by (rule re_search_as_of_None)
  with assms show ?thesis by (simp add: parse_date_def)
qed

lemma try_formats_first:
  assumes "i < length fs" "strptime s (fs ! i) = Inr d"
    and "\<forall>j < i. \<exists>e. strptime s (fs ! j) = Inl e"
  shows "try_formats fs s = Inr (Some d)"
  using assms
proof (induction fs arbitrary: i)
  case Nil
  then show ?case by simp
next
  case (Cons f fs)
  show ?case
  proof (cases i)
    case 0
    with Cons.prems show ?thesis by simp
  next
    case (Suc k)
    with Cons.prems(3) obtain e where e: "strptime s f = Inl e" by fastforce
    then obtain m where m: "e = ValueError m" using strptime_error by blast
    have "try_formats fs s = Inr (Some d)"
    proof (rule Cons.IH[of k])
      show "k < length fs" using Cons.prems(1) Suc by simp
      show "strptime s (fs ! k) = Inr d" using Cons.prems(2) Suc by simp
      show "\<forall>j<k. \<exists>e. strptime s (fs ! j) = Inl e"
        using Cons.prems(3) Suc by (metis Suc_less_eq nth_Cons_Suc)
    qed
    with e m show ?thesis by simp
  qed
qed

lemma try_formats_none:
  assumes "\<forall>f \<in> set fs. \<exists>e. strptime s f = Inl e"
  shows "try_formats fs s = Inr None"
  using assms
  by (induction fs) (auto split: sum.splits error.splits dest: strptime_error)

lemma pad2_in_cases:
  assumes "1 \<le> (n::int)" "n \<le> 31"
  shows "n \<in> {1,2,3,4,5,6,7,8,9,10,11,12,13,14,15,16,17,18,19,20,21,22,23,24,25,26,27,28,29,30,31}"
  using assms by simp arith

lemmas re_sim = re_m_def re_d_def re_Y_def in_range_def is_digit_def pad2_def digit_chr_def

lemma rmatch_re_m_sep:
  assumes "1 \<le> m" "m \<le> 12" "sep = CHR ''/'' \<or> sep = CHR ''-''"
  shows "rmatch (Seq re_m (Seq (Lit [sep]) R)) (pad2 m @ sep # s) caps = rmatch R s (caps @ [pad2 m])"
proof -
  from assms(1,2) have "m \<in> {1,2,3,4,5,6,7,8,9,10,11,12}" by simp arith
  with assms(3) show ?thesis
    by (elim insertE emptyE disjE; simp add: re_sim)
qed


lemma rmatch_re_d_sep:
  assumes "1 \<le> d" "d \<le> 31" "sep = CHR ''/'' \<or> sep = CHR ''-''"
  shows "rmatch (Seq re_d (Seq (Lit [sep]) R)) (pad2 d @ sep # s) caps = rmatch R s (caps @ [pad2 d])"
proof -
  from assms(1,2) have "d \<in> {1,2,3,4,5,6,7,8,9,10,11,12,13,14,15,16,17,18,19,20,21,22,23,24,25,26,27,28,29,30,31}"
    by (rule pad2_in_cases)
  with assms(3) show ?thesis
    by (elim insertE emptyE disjE; simp add: re_sim)
qed

lemma rmatch_re_d_end:
  assumes "1 \<le> d" "d \<le> 31"
  shows "\<exists>xs. rmatch re_d (pad2 d) caps = ([], caps @ [pad2 d]) # xs"
proof -
  from assms(1,2) have "d \<in> {1,2,3,4,5,6,7,8,9,10,11,12,13,14,15,16,17,18,19,20,21,22,23,24,25,26,27,28,29,30,31}"
    by (rule pad2_in_cases)
  then show ?thesis
    by (elim insertE emptyE; simp add: re_sim)
qed

lemma rmatch_re_m_sep_fail:
  assumes "13 \<le> d" "d \<le> 31"
  shows "rmatch (Seq re_m (Seq (Lit ''/'') R)) (pad2 d @ CHR ''/'' # s) caps = []"
proof -
  from assms(1,2) have "d \<in> {13,14,15,16,17,18,19,20,21,22,23,24,25,26,27,28,29,30,31}"
    by simp arith
  then show ?thesis
    by (elim insertE emptyE; simp add: re_sim)
qed

lemma rmatch_re_Y:
  "rmatch re_Y (pad4 y @ s) caps = [(s, caps @ [pad4 y])]"
  by (simp add: re_Y_def pad4_def is_digit_digit_chr)

lemma rmatch_re_Y_seq:
  "rmatch (Seq re_Y R) (pad4 y @ s) caps = rmatch R s (caps @ [pad4 y])"
  using rmatch_re_Y[of y s caps] by (simp del: append.simps)

lemma rmatch_re_Y_fail:
  "rmatch (Seq re_Y R) (a # b # CHR ''/'' # s) caps = []"
  by (simp add: re_Y_def is_digit_def)


lemma div10_small: "(n::int) \<le> 99 \<Longrightarrow> n div 10 \<le> 9"
  using zdiv_mono1[of n 99 10] by simp

lemma div1000_small: "(n::int) \<le> 9999 \<Longrightarrow> n div 1000 \<le> 9"
  using zdiv_mono1[of n 9999 1000] by simp

lemma div_100_10: "(y::int) div 100 = y div 10 div 10"
  by (simp add: zdiv_zmult2_eq[symmetric])

lemma div_1000_10: "(y::int) div 1000 = y div 100 div 10"
  by (simp add: zdiv_zmult2_eq[symmetric])

lemma recompose: "10 * ((k::int) div 10) + k mod 10 = k"
  by simp

lemma digits2:
  assumes "0 \<le> (n::int)" "n \<le> 99"
  shows "10 * (n div 10 mod 10) + n mod 10 = n"
proof -
  have "0 \<le> n div 10" using assms(1) by (simp add: pos_imp_zdiv_nonneg_iff)
  moreover have "n div 10 \<le> 9" using assms(2) by (rule div10_small)
  ultimately have "n div 10 mod 10 = n div 10" by simp
  then show ?thesis by (simp only: recompose)
qed

lemma digits4:
  assumes "0 \<le> (y::int)" "y \<le> 9999"
  shows "10 * (10 * (10 * (y div 1000 mod 10) + y div 100 mod 10) + y div 10 mod 10) + y mod 10 = y"
proof -
  have "0 \<le> y div 1000" using assms(1) by (simp add: pos_imp_zdiv_nonneg_iff)
  moreover have "y div 1000 \<le> 9" using assms(2) by (rule div1000_small)
  ultimately have a: "y div 1000 mod 10 = y div 1000" by simp
  have b: "10 * (y div 1000) + y div 100 mod 10 = y div 100"
    unfolding div_1000_10 by (rule recompose)
  have c: "10 * (y div 100) + y div 10 mod 10 = y div 10"
    unfolding div_100_10 by (rule recompose)
  show ?thesis by (simp only: a b c recompose)
qed

lemma py_int_pad2:
  assumes "0 \<le> n" "n \<le> 99"
  shows "py_int (pad2 n) = n"
proof -
  have "strip (pad2 n) = pad2 n"
    by (simp add: strip_def pad2_def not_space_digit_chr)
  then have "py_int (pad2 n) = digits_val (pad2 n)" by (simp only: py_int_def)
  also have "\<dots> = 10 * (n div 10 mod 10) + n mod 10"
    by (simp add: digits_val_def pad2_def of_char_digit_chr)
  also have "\<dots> = n" using assms by (rule digits2)
  finally show ?thesis .
qed

lemma py_int_pad4:
  assumes "0 \<le> y" "y \<le> 9999"
  shows "py_int (pad4 y) = y"
proof -
  have "strip (pad4 y) = pad4 y"
    by (simp add: strip_def pad4_def not_space_digit_chr)
  then have "py_int (pad4 y) = digits_val (pad4 y)" by (simp only: py_int_def)
  also have "\<dots> =
      10 * (10 * (10 * (y div 1000 mod 10) + y div 100 mod 10) + y div 10 mod 10) + y mod 10"
    by (simp add: digits_val_def pad4_def of_char_digit_chr)
  also have "\<dots> = y" using assms by (rule digits4)
  finally show ?thesis .
qed

lemma make_date_range:
  assumes "make_date y m d = Inr dt"
  shows "dt = Date y m d \<and> 1 \<le> y \<and> y \<le> 9999 \<and> 1 \<le> m \<and> m \<le> 12 \<and> 1 \<le> d \<and> d \<le> 31"
  using assms
  by (auto simp: make_date_def days_in_month_def split: if_splits)

lemma rmatch_Lit_seq: "rmatch (Seq (Lit [x]) R) (x # s) caps = rmatch R s caps"
  by simp

lemma re_match_head: "rmatch r s [] = x # xs \<Longrightarrow> re_match r s = Some x"
  by (simp add: re_match_def)

lemma re_match_none: "rmatch r s [] = [] \<Longrightarrow> re_match r s = None"
  by (simp add: re_match_def)

lemma strptime_fields:
  assumes "re_match (format_re fmt) s = Some ([], g)" "format_fields fmt g = Some (ys, ms, ds)"
  shows "strptime s fmt = make_date (py_int ys) (py_int ms) (py_int ds)"
  using assms by (simp add: strptime_def)

lemma strptime_no_match:
  assumes "rmatch (format_re fmt) s [] = []"
  shows "\<exists>e. strptime s fmt = Inl e"
  using re_match_none[OF assms] by (simp add: strptime_def)

lemma strptime_iso:
  assumes "make_date y m d = Inr dt"
  shows "strptime (iso_string y m d) ISO = Inr dt"
proof -
  from make_date_range[OF assms] have r: "1 \<le> y" "y \<le> 9999" "1 \<le> m" "m \<le> 12" "1 \<le> d" "d \<le> 31"
    by simp_all
  obtain xs where d: "rmatch re_d (pad2 d) [pad4 y, pad2 m] = ([], [pad4 y, pad2 m, pad2 d]) # xs"
    using rmatch_re_d_end[OF r(5,6), of "[pad4 y, pad2 m]"] by auto
  have s: "iso_string y m d = pad4 y @ (CHR ''-'' # (pad2 m @ CHR ''-'' # pad2 d))"
    by (simp add: iso_string_def)
  have "rmatch (format_re ISO) (iso_string y m d) [] =
        rmatch (Seq (Lit ''-'') (Seq re_m (Seq (Lit ''-'') re_d)))
          (CHR ''-'' # (pad2 m @ CHR ''-'' # pad2 d)) ([] @ [pad4 y])"
    by (simp only: s format_re.simps rmatch_re_Y_seq)
  also have "\<dots> = rmatch (Seq re_m (Seq (Lit ''-'') re_d)) (pad2 m @ CHR ''-'' # pad2 d) ([] @ [pad4 y])"
    by (rule rmatch_Lit_seq)
  also have "\<dots> = rmatch re_d (pad2 d) (([] @ [pad4 y]) @ [pad2 m])"
    by (rule rmatch_re_m_sep[OF r(3,4)]) simp
  also have "\<dots> = ([], [pad4 y, pad2 m, pad2 d]) # xs"
    using d by (simp only: append.simps)
  finally have "re_match (format_re ISO) (iso_string y m d) = Some ([], [pad4 y, pad2 m, pad2 d])"
    by (rule re_match_head)
  then have "strptime (iso_string y m d) ISO = make_date (py_int (pad4 y)) (py_int (pad2 m)) (py_int (pad2 d))"
    by (rule strptime_fields) simp
  then show ?thesis
    using r assms by (simp add: py_int_pad2 py_int_pad4)
qed

lemma strptime_us:
  assumes "make_date y m d = Inr dt"
  shows "strptime (us_string y m d) US = Inr dt"
proof -
  from make_date_range[OF assms] have r: "1 \<le> y" "y \<le> 9999" "1 \<le> m" "m \<le> 12" "1 \<le> d" "d \<le> 31"
    by simp_all
  have s: "us_string y m d = pad2 m @ CHR ''/'' # (pad2 d @ CHR ''/'' # (pad4 y @ []))"
    by (simp add: us_string_def)
  have "rmatch (format_re US) (us_string y m d) [] =
        rmatch (Seq re_d (Seq (Lit ''/'') re_Y)) (pad2 d @ CHR ''/'' # (pad4 y @ [])) ([] @ [pad2 m])"
    unfolding s format_re.simps by (rule rmatch_re_m_sep[OF r(3,4)]) simp
  also have "\<dots> = rmatch re_Y (pad4 y @ []) (([] @ [pad2 m]) @ [pad2 d])"
    by (rule rmatch_re_d_sep[OF r(5,6)]) simp
  also have "\<dots> = [([], (([] @ [pad2 m]) @ [pad2 d]) @ [pad4 y])]"
    by (rule rmatch_re_Y)
  also have "\<dots> = ([], [pad2 m, pad2 d, pad4 y]) # []"
    by (simp only: append.simps)
  finally have "re_match (format_re US) (us_string y m d) = Some ([], [pad2 m, pad2 d, pad4 y])"
    by (rule re_match_head)
  then have "strptime (us_string y m d) US = make_date (py_int (pad4 y)) (py_int (pad2 m)) (py_int (pad2 d))"
    by (rule strptime_fields) simp
  then show ?thesis
    using r assms by (simp add: py_int_pad2 py_int_pad4)
qed

lemma strptime_eu:
  assumes "make_date y m d = Inr dt"
  shows "strptime (eu_string y m d) EU = Inr dt"
proof -
  from make_date_range[OF assms] have r: "1 \<le> y" "y \<le> 9999" "1 \<le> m" "m \<le> 12" "1 \<le> d" "d \<le> 31"
    by simp_all
  have s: "eu_string y m d = pad2 d @ CHR ''/'' # (pad2 m @ CHR ''/'' # (pad4 y @ []))"
    by (simp add: eu_string_def)
  have "rmatch (format_re EU) (eu_string y m d) [] =
        rmatch (Seq re_m (Seq (Lit ''/'') re_Y)) (pad2 m @ CHR ''/'' # (pad4 y @ [])) ([] @ [pad2 d])"
    unfolding s format_re.simps by (rule rmatch_re_d_sep[OF r(5,6)]) simp
  also have "\<dots> = rmatch re_Y (pad4 y @ []) (([] @ [pad2 d]) @ [pad2 m])"
    by (rule rmatch_re_m_sep[OF r(3,4)]) simp
  also have "\<dots> = [([], (([] @ [pad2 d]) @ [pad2 m]) @ [pad4 y])]"
    by (rule rmatch_re_Y)
  also have "\<dots> = ([], [pad2 d, pad2 m, pad4 y]) # []"
    by (simp only: append.simps)
  finally have "re_match (format_re EU) (eu_string y m d) = Some ([], [pad2 d, pad2 m, pad4 y])"
    by (rule re_match_head)
  then have "strptime (eu_string y m d) EU = make_date (py_int (pad4 y)) (py_int (pad2 m)) (py_int (pad2 d))"
    by (rule strptime_fields) simp
  then show ?thesis
    using r assms by (simp add: py_int_pad2 py_int_pad4)
qed

lemma strptime_iso_slash_fail:
  "\<exists>e. strptime (pad2 a @ CHR ''/'' # s) ISO = Inl e"
proof -
  have "pad2 a @ CHR ''/'' # s = digit_chr (a div 10 mod 10) # digit_chr (a mod 10) # CHR ''/'' # s"
    by (simp add: pad2_def)
  then have "rmatch (format_re ISO) (pad2 a @ CHR ''/'' # s) [] = []"
    by (simp only: format_re.simps rmatch_re_Y_fail)
  then show ?thesis by (rule strptime_no_match)
qed

lemma strptime_us_fail:
  assumes "13 \<le> d" "d \<le> 31"
  shows "\<exists>e. strptime (eu_string y m d) US = Inl e"
proof -
  have s: "eu_string y m d = pad2 d @ CHR ''/'' # (pad2 m @ CHR ''/'' # pad4 y)"
    by (simp add: eu_string_def)
  have "rmatch (format_re US) (eu_string y m d) [] = []"
    unfolding s format_re.simps by (rule rmatch_re_m_sep_fail[OF assms])
  then show ?thesis by (rule strptime_no_match)
qed

lemma date_chr_digit_chr: "date_chr (digit_chr k)"
  by (simp add: date_chr_def is_digit_digit_chr)

lemma date_chr_strings:
  "list_all date_chr (iso_string y m d)"
  "list_all date_chr (us_string y m d)"
  "list_all date_chr (eu_string y m d)"
  by (simp_all add: iso_string_def us_string_def eu_string_def pad2_def pad4_def date_chr_digit_chr)
     (simp_all add: date_chr_def)

lemma parse_date_no_as_of:
  assumes "re_search as_of_pattern s = None" "try_formats formats s = Inr (Some dt)"
  shows "parse_date s = Inr (Some dt)"
  using assms by (simp add: parse_date_def)

lemma parse_date_iso:
  assumes "make_date y m d = Inr dt"
  shows "parse_date (iso_string y m d) = Inr (Some dt)"
proof (rule parse_date_no_as_of)
  show "re_search as_of_pattern (iso_string y m d) = None"
    by (rule re_search_as_of_None) (rule date_chr_strings)
  show "try_formats formats (iso_string y m d) = Inr (Some dt)"
    using strptime_iso[OF assms] by (simp add: formats_def)
qed

lemma parse_date_us:
  assumes "make_date y m d = Inr dt"
  shows "parse_date (us_string y m d) = Inr (Some dt)"
proof (rule parse_date_no_as_of)
  show "re_search as_of_pattern (us_string y m d) = None"
    by (rule re_search_as_of_None) (rule date_chr_strings)
  have s: "us_string y m d = pad2 m @ CHR ''/'' # (pad2 d @ CHR ''/'' # pad4 y)"
    by (simp add: us_string_def)
  obtain e where "strptime (us_string y m d) ISO = Inl e"
    unfolding s using strptime_iso_slash_fail by blast
  moreover then obtain msg where "e = ValueError msg" using strptime_error by blast
  ultimately show "try_formats formats (us_string y m d) = Inr (Some dt)"
    using strptime_us[OF assms] by (simp add: formats_def)
qed

lemma parse_date_eu_late:
  assumes "make_date y m d = Inr dt" "12 < d"
  shows "parse_date (eu_string y m d) = Inr (Some dt)"
proof (rule parse_date_no_as_of)
  show "re_search as_of_pattern (eu_string y m d) = None"
    by (rule re_search_as_of_None) (rule date_chr_strings)
  have s: "eu_string y m d = pad2 d @ CHR ''/'' # (pad2 m @ CHR ''/'' # pad4 y)"
    by (simp add: eu_string_def)
  obtain e where e: "strptime (eu_string y m d) ISO = Inl e"
    unfolding s using strptime_iso_slash_fail by blast
  then obtain msg where m: "e = ValueError msg" using strptime_error by blast
  from make_date_range[OF assms(1)] assms(2) have "13 \<le> d" "d \<le> 31" by simp_all
  then obtain e' where e': "strptime (eu_string y m d) US = Inl e'"
    using strptime_us_fail by blast
  then obtain msg' where m': "e' = ValueError msg'" using strptime_error by blast
  from e m e' m' show "try_formats formats (eu_string y m d) = Inr (Some dt)"
    using strptime_eu[OF assms(1)] by (simp add: formats_def)
qed

lemma parse_date_eu_same:
  assumes "make_date y m m = Inr dt"
  shows "parse_date (eu_string y m m) = Inr (Some dt)"
  using parse_date_us[OF assms] by (simp add: eu_string_def us_string_def)

text \<open>
  Claim C5, amended. \<^verbatim>\<open>parse_date\<close> never raises. When the string holds an
  \<^verbatim>\<open>as of <date>\<close> substring, the result is that of parsing the as-of date alone.
  Otherwise the formats ISO, US, European and dashed are tried in this order and the first
  that parses gives the result. For every calendar date the ISO string and the US string
  parse back to that date; the European string does so when its day is above 12 or equal
  to its month (a European string with a day up to 12 is read as a US date, month first).
  When no format parses the string, nor the first date-like substring of it, the result is
  \<^verbatim>\<open>None\<close>.
\<close>

theorem parse_date_spec:
  "(\<exists>r. parse_date s = Inr r)
   \<and> (re_search as_of_pattern s = Some caps \<longrightarrow> parse_date s = parse_date (group1 caps))
   \<and> formats = [ISO, US, EU, DASHED]
   \<and> (re_search as_of_pattern s = None \<and> i < length formats \<and> strptime s (formats ! i) = Inr d0
        \<and> (\<forall>j<i. \<exists>e. strptime s (formats ! j) = Inl e)
      \<longrightarrow> parse_date s = Inr (Some d0))
   \<and> (make_date y m d = Inr dt \<longrightarrow>
        parse_date (iso_string y m d) = Inr (Some dt)
        \<and> parse_date (us_string y m d) = Inr (Some dt)
        \<and> (12 < d \<or> d = m \<longrightarrow> parse_date (eu_string y m d) = Inr (Some dt)))
   \<and> (ds = (case re_search as_of_pattern s of Some c \<Rightarrow> group1 c | None \<Rightarrow> s)
        \<and> (\<forall>f \<in> set formats. \<exists>e. strptime ds f = Inl e)
        \<and> (re_search date_pattern ds = None
             \<or> (\<exists>c. re_search date_pattern ds = Some c
                    \<and> (\<forall>f \<in> set formats. \<exists>e. strptime (group1 c) f = Inl e)))
      \<longrightarrow> parse_date s = Inr None)"
proof (intro conjI impI)
  show "\<exists>r. parse_date s = Inr r" by (rule parse_date_total)
next
  assume "re_search as_of_pattern s = Some caps"
  then show "parse_date s = parse_date (group1 caps)" by (rule parse_date_as_of)
next
  show "formats = [ISO, US, EU, DASHED]" by (rule formats_def)
next
  assume a: "re_search as_of_pattern s = None \<and> i < length formats \<and> strptime s (formats ! i) = Inr d0
        \<and> (\<forall>j<i. \<exists>e. strptime s (formats ! j) = Inl e)"
  then have "try_formats formats s = Inr (Some d0)" using try_formats_first by blast
  with a show "parse_date s = Inr (Some d0)" using parse_date_no_as_of by blast
next
  assume "make_date y m d = Inr dt"
  then show "parse_date (iso_string y m d) = Inr (Some dt)" by (rule parse_date_iso)
next
  assume "make_date y m d = Inr dt"
  then show "parse_date (us_string y m d) = Inr (Some dt)" by (rule parse_date_us)
next
  assume "make_date y m d = Inr dt" "12 < d \<or> d = m"
  then show "parse_date (eu_string y m d) = Inr (Some dt)"
    using parse_date_eu_late parse_date_eu_same by blast
next
  assume a: "ds = (case re_search as_of_pattern s of Some c \<Rightarrow> group1 c | None \<Rightarrow> s)
        \<and> (\<forall>f \<in> set formats. \<exists>e. strptime ds f = Inl e)
        \<and> (re_search date_pattern ds = None
             \<or> (\<exists>c. re_search date_pattern ds = Some c
                    \<and> (\<forall>f \<in> set formats. \<exists>e. strptime (group1 c) f = Inl e)))"
  then have 1: "try_formats formats ds = Inr None" using try_formats_none by blast
  from a have "re_search date_pattern ds = None
     \<or> (\<exists>c. re_search date_pattern ds = Some c \<and> try_formats formats (group1 c) = Inr None)"
    using try_formats_none by blast
  with 1 a show "parse_date s = Inr None"
    by (auto simp: parse_date_def Let_def)
qed

theorem parse_date_spec_witness:
  "parse_date ''07/22/2024 as of 07/19/2024'' = parse_date ''07/19/2024''
   \<and> parse_date ''07/19/2024'' = Inr (Some (Date 2024 7 19))
   \<and> parse_date ''15-01-2024'' = Inr (Some (Date 2024 1 15))
   \<and> parse_date (iso_string 2024 1 5) = Inr (Some (Date 2024 1 5))
   \<and> parse_date (us_string 2024 1 5) = Inr (Some (Date 2024 1 5))
   \<and> parse_date (eu_string 2024 1 15) = Inr (Some (Date 2024 1 15))
   \<and> parse_date ''next Friday'' = Inr None"
proof -
  have h1: "re_search as_of_pattern ''07/22/2024 as of 07/19/2024'' = Some [''07/19/2024'']"
    by code_simp
  have g1: "group1 [''07/19/2024''] = ''07/19/2024''" by (simp add: group1_def)
  have w1: "parse_date ''07/22/2024 as of 07/19/2024'' = parse_date ''07/19/2024''"
    using parse_date_spec[where s = "''07/22/2024 as of 07/19/2024''" and caps = "[''07/19/2024'']",
        THEN conjunct2, THEN conjunct1, THEN mp, OF h1]
    by (simp only: g1)
  have w2: "parse_date ''07/19/2024'' = Inr (Some (Date 2024 7 19))" by code_simp
  have h3: "re_search as_of_pattern ''15-01-2024'' = None \<and> (3::nat) < length formats
      \<and> strptime ''15-01-2024'' (formats ! 3) = Inr (Date 2024 1 15)
      \<and> (\<forall>j<3. \<exists>e. strptime ''15-01-2024'' (formats ! j) = Inl e)"
  proof (intro conjI allI impI)
    show "re_search as_of_pattern ''15-01-2024'' = None" by code_simp
    show "(3::nat) < length formats" by (simp add: formats_def)
    show "strptime ''15-01-2024'' (formats ! 3) = Inr (Date 2024 1 15)" by code_simp
    fix j :: nat assume "j < 3"
    then have "j = 0 \<or> j = 1 \<or> j = 2" by arith
    moreover have "strptime ''15-01-2024'' ISO = Inl (ValueError ''time data does not match format'')"
      "strptime ''15-01-2024'' US = Inl (ValueError ''time data does not match format'')"
      "strptime ''15-01-2024'' EU = Inl (ValueError ''time data does not match format'')"
      by code_simp+
    ultimately show "\<exists>e. strptime ''15-01-2024'' (formats ! j) = Inl e"
      by (auto simp: formats_def)
  qed
  have w3: "parse_date ''15-01-2024'' = Inr (Some (Date 2024 1 15))"
    by (rule parse_date_spec[where s = "''15-01-2024''" and i = 3 and ?d0.0 = "Date 2024 1 15",
        THEN conjunct2, THEN conjunct2, THEN conjunct2, THEN conjunct1, THEN mp, OF h3])
  have h4: "make_date 2024 1 5 = Inr (Date 2024 1 5)" "make_date 2024 1 15 = Inr (Date 2024 1 15)"
    by code_simp+
  note r4 = parse_date_spec[where y = 2024 and m = 1 and d = 5 and dt = "Date 2024 1 5",
        THEN conjunct2, THEN conjunct2, THEN conjunct2, THEN conjunct2, THEN conjunct1, THEN mp,
        OF h4(1)]
  note r5 = parse_date_spec[where y = 2024 and m = 1 and d = 15 and dt = "Date 2024 1 15",
        THEN conjunct2, THEN conjunct2, THEN conjunct2, THEN conjunct2, THEN conjunct1, THEN mp,
        OF h4(2)]
  have w4: "parse_date (iso_string 2024 1 5) = Inr (Some (Date 2024 1 5))"
    "parse_date (us_string 2024 1 5) = Inr (Some (Date 2024 1 5))"
    using r4 by simp_all
  have w5: "parse_date (eu_string 2024 1 15) = Inr (Some (Date 2024 1 15))"
    using r5 by simp
  have h6: "''next Friday'' = (case re_search as_of_pattern ''next Friday'' of
               Some c \<Rightarrow> group1 c | None \<Rightarrow> ''next Friday'')
        \<and> (\<forall>f \<in> set formats. \<exists>e. strptime ''next Friday'' f = Inl e)
        \<and> (re_search date_pattern ''next Friday'' = None
             \<or> (\<exists>c. re_search date_pattern ''next Friday'' = Some c
                    \<and> (\<forall>f \<in> set formats. \<exists>e. strptime (group1 c) f = Inl e)))"
  proof (intro conjI disjI1 ballI)
    have "re_search as_of_pattern ''next Friday'' = None" by code_simp
    then show "''next Friday'' = (case re_search as_of_pattern ''next Friday'' of
               Some c \<Rightarrow> group1 c | None \<Rightarrow> ''next Friday'')" by simp
    show "re_search date_pattern ''next Friday'' = None" by code_simp
    fix f assume "f \<in> set formats"
    moreover have "strptime ''next Friday'' ISO = Inl (ValueError ''time data does not match format'')"
      "strptime ''next Friday'' US = Inl (ValueError ''time data does not match format'')"
      "strptime ''next Friday'' EU = Inl (ValueError ''time data does not match format'')"
      "strptime ''next Friday'' DASHED = Inl (ValueError ''time data does not match format'')"
      by code_simp+
    ultimately show "\<exists>e. strptime ''next Friday'' f = Inl e"
      by (auto simp: formats_def)
  qed
  have w6: "parse_date ''next Friday'' = Inr None"
    by (rule parse_date_spec[where s = "''next Friday''" and ds = "''next Friday''",
        THEN conjunct2, THEN conjunct2, THEN conjunct2, THEN conjunct2, THEN conjunct2, THEN mp,
        OF h6])
  from w1 w2 w3 w4 w5 w6 show ?thesis by (simp only: simp_thms)
qed

text \<open>
  The claim as stated fails for the European format: the European string of 5 January 2024
  parses to 1 May 2024, because the US format is tried first.
\<close>

theorem parse_date_european_counterexample:
  "make_date 2024 1 5 = Inr (Date 2024 1 5)
   \<and> eu_string 2024 1 5 = ''05/01/2024''
   \<and> parse_date (eu_string 2024 1 5) = Inr (Some (Date 2024 5 1))
   \<and> parse_date (eu_string 2024 1 5) \<noteq> Inr (Some (Date 2024 1 5))"
  by code_simp

section \<open>parse_option_details (C7)\<close>

lemma find_strike_total: "\<exists>r. find_strike ps ds = Inr r"
  by (induction ps) (auto split: option.splits sum.splits error.splits dest: Decimal_error)

lemma find_expiration_total: "\<exists>r. find_expiration ps ds = Inr r"
proof (induction ps)
  case Nil
  show ?case by simp
next
  case (Cons p ps)
  show ?case
  proof (cases "re_search p ds")
    case None
    with Cons show ?thesis by simp
  next
    case (Some caps)
    obtain r where "parse_date (group1 caps) = Inr r" using parse_date_total by blast
    with Some show ?thesis by simp
  qed
qed

lemma description_step_total: "\<exists>r. description_step symbol ds r0 = Inr r"
proof -
  obtain a where a: "find_strike price_patterns ds = Inr a" using find_strike_total by blast
  obtain b where b: "find_expiration date_patterns ds = Inr b" using find_expiration_total by blast
  show ?thesis
    unfolding description_step_def Let_def a b
    by (cases b) (simp_all)
qed

lemma classify_part_total: "\<exists>r. classify_part part r0 = Inr r"
proof -
  obtain d where d: "parse_date part = Inr d" using parse_date_total by blast
  show ?thesis
  proof (cases "Decimal (ustr (remove_chr (CHR '','') (remove_chr (CHR ''$'') part)))")
    case (Inl e)
    then have "e = InvalidOperation" by (rule Decimal_error)
    with Inl d show ?thesis by (simp add: classify_part_def Let_def)
  next
    case (Inr v)
    with d show ?thesis by (simp add: classify_part_def Let_def)
  qed
qed

lemma classify_parts_total: "\<exists>r. classify_parts parts r0 = Inr r"
proof (induction parts arbitrary: r0)
  case Nil
  show ?case by simp
next
  case (Cons p ps)
  obtain r1 where "classify_part p r0 = Inr r1" using classify_part_total by blast
  with Cons[of r1] show ?case by simp
qed

lemma space_step_total: "\<exists>r. space_step symbol r0 = Inr r"
  using classify_parts_total by (simp add: space_step_def Let_def)

lemma parse_steps_total: "\<exists>r. parse_steps symbol description = Inr r"
proof -
  have "\<exists>r1. (case description of
              None \<Rightarrow> Inr (init_result symbol)
            | Some ds \<Rightarrow> if ds = [] then Inr (init_result symbol)
                         else description_step symbol ds (init_result symbol)) = Inr r1"
  proof (cases description)
    case None
    then show ?thesis by simp
  next
    case (Some ds)
    then show ?thesis using description_step_total[of symbol ds "init_result symbol"]
      by (cases "ds = []") simp_all
  qed
  then obtain r1 where r1: "(case description of
              None \<Rightarrow> Inr (init_result symbol)
            | Some ds \<Rightarrow> if ds = [] then Inr (init_result symbol)
                         else description_step symbol ds (init_result symbol)) = Inr r1"
    by blast
  obtain r2 where "space_step symbol r1 = Inr r2" using space_step_total by blast
  with r1 show ?thesis by (simp add: parse_steps_def)
qed

lemma rmatch_Grp:
  "(rest, caps) \<in> set (rmatch (Grp a) s c0) \<Longrightarrow>
     \<exists>c1. (rest, c1) \<in> set (rmatch a s c0) \<and> caps = c1 @ [take (length s - length rest) s]"
  by auto

lemma rmatch_Chr:
  "(rest, caps) \<in> set (rmatch (Chr p) s c0) \<Longrightarrow> \<exists>c. s = c # rest \<and> p c \<and> caps = c0"
  by (cases s) (auto split: if_splits)

lemma occ_groups:
  assumes "(rest, groups) \<in> set (rmatch occ_pattern s [])"
  shows "\<exists>t d c x. groups = [t, d, [c], x] \<and> (c = CHR ''C'' \<or> c = CHR ''P'')"
proof -
  from assms[unfolded occ_pattern_def] obtain r1 c1 where
    1: "(r1, c1) \<in> set (rmatch (Grp (Many is_upper 1 None)) s [])"
    and n1: "(rest, groups) \<in> set (rmatch (Seq (Grp (Many is_digit 6 (Some 6)))
      (Seq (Grp (Chr (\<lambda>c. c = CHR ''C'' \<or> c = CHR ''P'')))
      (Seq (Grp (Many is_digit 8 (Some 8))) Eol))) r1 c1)"
    using rmatch_Seq by blast
  from rmatch_Seq[OF n1] obtain r2 c2 where
    2: "(r2, c2) \<in> set (rmatch (Grp (Many is_digit 6 (Some 6))) r1 c1)"
    and n2: "(rest, groups) \<in> set (rmatch (Seq (Grp (Chr (\<lambda>c. c = CHR ''C'' \<or> c = CHR ''P'')))
      (Seq (Grp (Many is_digit 8 (Some 8))) Eol)) r2 c2)"
    by blast
  from rmatch_Seq[OF n2] obtain r3 c3 where
    3: "(r3, c3) \<in> set (rmatch (Grp (Chr (\<lambda>c. c = CHR ''C'' \<or> c = CHR ''P''))) r2 c2)"
    and n3: "(rest, groups) \<in> set (rmatch (Seq (Grp (Many is_digit 8 (Some 8))) Eol) r3 c3)"
    by blast
  from rmatch_Seq[OF n3] obtain r4 c4 where
    4: "(r4, c4) \<in> set (rmatch (Grp (Many is_digit 8 (Some 8))) r3 c3)"
    and n4: "(rest, groups) \<in> set (rmatch Eol r4 c4)"
    by blast
  from rmatch_Grp[OF 1] rmatch_Many obtain t where c1: "c1 = [t]" by fastforce
  from rmatch_Grp[OF 2] rmatch_Many obtain d where c2: "c2 = c1 @ [d]" by fastforce
  from rmatch_Grp[OF 3] obtain c3' where
    c3': "(r3, c3') \<in> set (rmatch (Chr (\<lambda>c. c = CHR ''C'' \<or> c = CHR ''P'')) r2 c2)"
    and c3: "c3 = c3' @ [take (length r2 - length r3) r2]" by blast
  from rmatch_Chr[OF c3'] obtain c where c: "r2 = c # r3" "c = CHR ''C'' \<or> c = CHR ''P''" "c3' = c2"
    by blast
  from c3 c have c3e: "c3 = c2 @ [[c]]" by simp
  from rmatch_Grp[OF 4] rmatch_Many obtain x where c4: "c4 = c3 @ [x]" by fastforce
  from n4 have "groups = c4" by (auto split: if_splits)
  with c1 c2 c3e c4 c(2) show ?thesis by simp
qed

lemma re_match_in: "re_match r s = Some (rest, caps) \<Longrightarrow> (rest, caps) \<in> set (rmatch r s [])"
  by (auto simp: re_match_def split: list.splits)

lemma dec_div_int_error: "dec_div_int v k = Inl e \<Longrightarrow> e = InvalidOperation"
  by (auto simp: dec_div_int_def split: decimal.splits)

lemma occ_result_ok:
  assumes "c = CHR ''C'' \<or> c = CHR ''P''"
  shows "\<exists>r. occ_result [t, d, [c], x] = Inr r \<and> is_option r \<and> option_type r \<noteq> None"
proof -
  let ?st = "case Decimal (ustr x) of Inl e \<Rightarrow> Inl e | Inr v \<Rightarrow> dec_div_int v 1000"
  have "(\<exists>v. ?st = Inr v) \<or> ?st = Inl InvalidOperation"
    by (cases "Decimal (ustr x)"; cases ?st) (auto dest: Decimal_error dec_div_int_error)
  with assms show ?thesis
    by (auto simp: occ_result_def Let_def)
qed


lemma default_option_type_set:
  "is_option (default_option_type r) \<Longrightarrow> option_type (default_option_type r) \<noteq> None"
  by (auto simp: default_option_type_def)

lemma option_type_cases: "t \<noteq> None \<Longrightarrow> t = Some CALL \<or> t = Some PUT"
  by (cases t) (auto intro: OptionType.exhaust)

lemma parse_option_details_cases:
  "\<exists>r. parse_option_details symbol description = Inr r
       \<and> (is_option r \<longrightarrow> option_type r \<noteq> None)"
proof (cases "symbol = [] \<and> (description = None \<or> description = Some [])")
  case True
  then show ?thesis by (auto simp: parse_option_details_def init_result_def)
next
  case False
  show ?thesis
  proof (cases "re_match occ_pattern symbol")
    case None
    obtain r where "parse_steps symbol description = Inr r" using parse_steps_total by blast
    with None False show ?thesis
      by (auto simp: parse_option_details_def dest: default_option_type_set)
  next
    case (Some x)
    obtain rest groups where x: "x = (rest, groups)" by (cases x)
    with Some have "(rest, groups) \<in> set (rmatch occ_pattern symbol [])"
      using re_match_in by simp
    from occ_groups[OF this] obtain t d c y where
      g: "groups = [t, d, [c], y]" "c = CHR ''C'' \<or> c = CHR ''P''" by blast
    from occ_result_ok[OF g(2), of t d y] obtain r where
      "occ_result groups = Inr r" "is_option r" "option_type r \<noteq> None"
      using g(1) by blast
    with Some x False show ?thesis by (auto simp: parse_option_details_def)
  qed
qed

text \<open>
  Claim C7. \<^verbatim>\<open>parse_option_details\<close> returns for every symbol and description, and in what
  it returns an option has its type set, to \<open>CALL\<close> or to \<open>PUT\<close>. When the symbol is not in
  the compact coded form and the description scan and the space-delimited symbol leave an
  option without a type, the type returned is \<open>CALL\<close>.
\<close>

theorem parse_option_details_option_type:
  "(\<exists>r. parse_option_details symbol description = Inr r)
   \<and> (parse_option_details symbol description = Inr r \<and> is_option r
        \<longrightarrow> option_type r = Some CALL \<or> option_type r = Some PUT)
   \<and> (\<not> (symbol = [] \<and> (description = None \<or> description = Some []))
        \<and> re_match occ_pattern symbol = None
        \<and> parse_steps symbol description = Inr r0 \<and> is_option r0 \<and> option_type r0 = None
        \<longrightarrow> parse_option_details symbol description = Inr (r0\<lparr>option_type := Some CALL\<rparr>))"
proof (intro conjI impI)
  show "\<exists>r. parse_option_details symbol description = Inr r"
    using parse_option_details_cases by blast
next
  assume "parse_option_details symbol description = Inr r \<and> is_option r"
  then show "option_type r = Some CALL \<or> option_type r = Some PUT"
    using parse_option_details_cases[of symbol description] option_type_cases by auto
next
  assume "\<not> (symbol = [] \<and> (description = None \<or> description = Some []))
        \<and> re_match occ_pattern symbol = None
        \<and> parse_steps symbol description = Inr r0 \<and> is_option r0 \<and> option_type r0 = None"
  then show "parse_option_details symbol description = Inr (r0\<lparr>option_type := Some CALL\<rparr>)"
    by (auto simp: parse_option_details_def default_option_type_def)
qed

theorem parse_option_details_option_type_witness:
  "parse_option_details ''AAPL'' (Some ''Apple strike'')
     = Inr \<lparr>is_option = True, ticker = ''AAPL'', option_type = Some CALL,
            expiration_date = None, strike_price = None\<rparr>
   \<and> parse_steps ''AAPL'' (Some ''Apple strike'')
     = Inr \<lparr>is_option = True, ticker = ''AAPL'', option_type = None,
            expiration_date = None, strike_price = None\<rparr>
   \<and> parse_option_details ''MSFT211217C00340000'' None
     = Inr \<lparr>is_option = True, ticker = ''MSFT'', option_type = Some CALL,
            expiration_date = Some (Date 2021 12 17), strike_price = Some (Finite 340)\<rparr>"
proof -
  let ?r0 = "\<lparr>is_option = True, ticker = ''AAPL'', option_type = None,
            expiration_date = None, strike_price = None\<rparr>"
  have h: "\<not> (''AAPL'' = [] \<and> (Some ''Apple strike'' = None \<or> Some ''Apple strike'' = Some []))
        \<and> re_match occ_pattern ''AAPL'' = None
        \<and> parse_steps ''AAPL'' (Some ''Apple strike'') = Inr ?r0 \<and> is_option ?r0
        \<and> option_type ?r0 = None"
    by code_simp
  have w1: "parse_option_details ''AAPL'' (Some ''Apple strike'') = Inr (?r0\<lparr>option_type := Some CALL\<rparr>)"
    by (rule parse_option_details_option_type[where symbol = "''AAPL''"
          and description = "Some ''Apple strike''" and ?r0.0 = ?r0,
          THEN conjunct2, THEN conjunct2, THEN mp, OF h])
  have w2: "parse_option_details ''MSFT211217C00340000'' None
     = Inr \<lparr>is_option = True, ticker = ''MSFT'', option_type = Some CALL,
            expiration_date = Some (Date 2021 12 17), strike_price = Some (Finite 340)\<rparr>"
    by code_simp
  have h3: "parse_option_details ''MSFT211217C00340000'' None
       = Inr \<lparr>is_option = True, ticker = ''MSFT'', option_type = Some CALL,
            expiration_date = Some (Date 2021 12 17), strike_price = Some (Finite 340)\<rparr>
     \<and> is_option \<lparr>is_option = True, ticker = ''MSFT'', option_type = Some CALL,
            expiration_date = Some (Date 2021 12 17), strike_price = Some (Finite 340)\<rparr>"
    using w2 by simp
  note w3 = parse_option_details_option_type[where symbol = "''MSFT211217C00340000''"
          and description = None, THEN conjunct2, THEN conjunct1, THEN mp, OF h3]
  from w1 w2 w3 h show ?thesis by simp
qed

end
